theory Spec2Isabelle
  imports Complex_Main "HOL-Library.Word"
begin

unbundle bit_operations_syntax

section \<open>The 64-bit hash of include/xxh3.h\<close>

text \<open>
  \<^verbatim>\<open>xxh3(x, len)\<close> is \<^verbatim>\<open>xxh3_XXH3_64bits_const\<close>: seed 0 and the default secret.
  Bytes are \<open>8 word\<close>, \<^verbatim>\<open>uint32_t\<close> is \<open>32 word\<close>, \<^verbatim>\<open>uint64_t\<close> and \<^verbatim>\<open>size_t\<close> are
  \<open>64 word\<close>; an array with a pointer into it is a list with an offset.
\<close>

type_synonym u8 = "8 word"
type_synonym u32 = "32 word"
type_synonym u64 = "64 word"

definition xxh3_swap32 :: "u32 \<Rightarrow> u32" where
  "xxh3_swap32 x =
     ((push_bit 24 x AND 0xff000000) OR (push_bit 8 x AND 0x00ff0000) OR
      (drop_bit 8 x AND 0x0000ff00) OR (drop_bit 24 x AND 0x000000ff))"

definition xxh3_readLE32 :: "u8 list \<Rightarrow> nat \<Rightarrow> u32" where
  "xxh3_readLE32 p off =
     (ucast (p ! off) OR push_bit 8 (ucast (p ! (off + 1))) OR
      push_bit 16 (ucast (p ! (off + 2))) OR push_bit 24 (ucast (p ! (off + 3))))"

definition xxh3_swap64 :: "u64 \<Rightarrow> u64" where
  "xxh3_swap64 x =
     ((push_bit 56 x AND 0xff00000000000000) OR
      (push_bit 40 x AND 0x00ff000000000000) OR
      (push_bit 24 x AND 0x0000ff0000000000) OR
      (push_bit 8 x AND 0x000000ff00000000) OR
      (drop_bit 8 x AND 0x00000000ff000000) OR
      (drop_bit 24 x AND 0x0000000000ff0000) OR
      (drop_bit 40 x AND 0x000000000000ff00) OR
      (drop_bit 56 x AND 0x00000000000000ff))"

definition xxh3_readLE64 :: "u8 list \<Rightarrow> nat \<Rightarrow> u64" where
  "xxh3_readLE64 p off =
     (ucast (xxh3_readLE32 p off) OR push_bit 32 (ucast (xxh3_readLE32 p (off + 4))))"

definition XXH3_PRIME32_1 :: u32 where "XXH3_PRIME32_1 = 0x9E3779B1"
definition XXH3_PRIME32_2 :: u32 where "XXH3_PRIME32_2 = 0x85EBCA77"
definition XXH3_PRIME32_3 :: u32 where "XXH3_PRIME32_3 = 0xC2B2AE3D"

definition XXH3_PRIME64_1 :: u64 where "XXH3_PRIME64_1 = 0x9E3779B185EBCA87"
definition XXH3_PRIME64_2 :: u64 where "XXH3_PRIME64_2 = 0xC2B2AE3D27D4EB4F"
definition XXH3_PRIME64_3 :: u64 where "XXH3_PRIME64_3 = 0x165667B19E3779F9"
definition XXH3_PRIME64_4 :: u64 where "XXH3_PRIME64_4 = 0x85EBCA77C2B2AE63"
definition XXH3_PRIME64_5 :: u64 where "XXH3_PRIME64_5 = 0x27D4EB2F165667C5"

definition XXH3_STRIPE_LEN :: nat where "XXH3_STRIPE_LEN = 64"
definition XXH3_SECRET_CONSUME_RATE :: nat where "XXH3_SECRET_CONSUME_RATE = 8"
definition XXH3_ACC_NB :: nat where "XXH3_ACC_NB = 8"
definition XXH3_SECRET_SIZE_MIN :: nat where "XXH3_SECRET_SIZE_MIN = 136"

definition xxh3_kSecret :: "u8 list" where
  "xxh3_kSecret =
    [0xb8, 0xfe, 0x6c, 0x39, 0x23, 0xa4, 0x4b, 0xbe, 0x7c, 0x01, 0x81, 0x2c,
     0xf7, 0x21, 0xad, 0x1c, 0xde, 0xd4, 0x6d, 0xe9, 0x83, 0x90, 0x97, 0xdb,
     0x72, 0x40, 0xa4, 0xa4, 0xb7, 0xb3, 0x67, 0x1f, 0xcb, 0x79, 0xe6, 0x4e,
     0xcc, 0xc0, 0xe5, 0x78, 0x82, 0x5a, 0xd0, 0x7d, 0xcc, 0xff, 0x72, 0x21,
     0xb8, 0x08, 0x46, 0x74, 0xf7, 0x43, 0x24, 0x8e, 0xe0, 0x35, 0x90, 0xe6,
     0x81, 0x3a, 0x26, 0x4c, 0x3c, 0x28, 0x52, 0xbb, 0x91, 0xc3, 0x00, 0xcb,
     0x88, 0xd0, 0x65, 0x8b, 0x1b, 0x53, 0x2e, 0xa3, 0x71, 0x64, 0x48, 0x97,
     0xa2, 0x0d, 0xf9, 0x4e, 0x38, 0x19, 0xef, 0x46, 0xa9, 0xde, 0xac, 0xd8,
     0xa8, 0xfa, 0x76, 0x3f, 0xe3, 0x9c, 0x34, 0x3f, 0xf9, 0xdc, 0xbb, 0xc7,
     0xc7, 0x0b, 0x4f, 0x1d, 0x8a, 0x51, 0xe0, 0x4b, 0xcd, 0xb4, 0x59, 0x31,
     0xc8, 0x9f, 0x7e, 0xc9, 0xd9, 0x78, 0x73, 0x64, 0xea, 0xc5, 0xac, 0x83,
     0x34, 0xd3, 0xeb, 0xc3, 0xc5, 0x81, 0xa0, 0xff, 0xfa, 0x13, 0x63, 0xeb,
     0x17, 0x0d, 0xdd, 0x51, 0xb7, 0xf0, 0xda, 0x49, 0xd3, 0x16, 0x55, 0x26,
     0x29, 0xd4, 0x68, 0x9e, 0x2b, 0x16, 0xbe, 0x58, 0x7d, 0x47, 0xa1, 0xfc,
     0x8f, 0xf8, 0xb8, 0xd1, 0x7a, 0xd0, 0x31, 0xce, 0x45, 0xcb, 0x3a, 0x8f,
     0x95, 0x16, 0x04, 0x28, 0xaf, 0xd7, 0xfb, 0xca, 0xbb, 0x4b, 0x40, 0x7e]"

text \<open>
  \<^verbatim>\<open>xxh3_mul128_fold64\<close>: the 128-bit product of the two operands, its upper half
  folded onto its lower half (the \<^verbatim>\<open>unsigned __int128\<close> branch).
\<close>

definition xxh3_mul128_fold64 :: "u64 \<Rightarrow> u64 \<Rightarrow> u64" where
  "xxh3_mul128_fold64 lhs rhs =
     (let product = uint lhs * uint rhs
      in (word_of_int (product div 2 ^ 64) :: u64) XOR word_of_int product)"

definition xxh3_XXH64_avalanche :: "u64 \<Rightarrow> u64" where
  "xxh3_XXH64_avalanche h0 =
     (let h1 = (h0 XOR drop_bit 33 h0) * XXH3_PRIME64_2;
          h2 = (h1 XOR drop_bit 29 h1) * XXH3_PRIME64_3
      in h2 XOR drop_bit 32 h2)"

definition xxh3_XXH3_avalanche :: "u64 \<Rightarrow> u64" where
  "xxh3_XXH3_avalanche h0 =
     (let h1 = (h0 XOR drop_bit 37 h0) * 0x165667919E3779F9
      in h1 XOR drop_bit 32 h1)"

definition xxh3_rrmxmx :: "u64 \<Rightarrow> u64 \<Rightarrow> u64" where
  "xxh3_rrmxmx h0 len =
     (let h1 = h0 XOR ((push_bit 49 h0 OR drop_bit 15 h0) XOR (push_bit 24 h0 OR drop_bit 40 h0));
          h2 = h1 * 0x9FB21C651E98DF25;
          h3 = h2 XOR (drop_bit 35 h2 + len);
          h4 = h3 * 0x9FB21C651E98DF25
      in h4 XOR drop_bit 28 h4)"

definition xxh3_mix16B :: "u8 list \<Rightarrow> nat \<Rightarrow> u8 list \<Rightarrow> nat \<Rightarrow> u64 \<Rightarrow> u64" where
  "xxh3_mix16B inp ioff sec soff seed =
     xxh3_mul128_fold64 (xxh3_readLE64 inp ioff XOR (xxh3_readLE64 sec soff + seed))
                        (xxh3_readLE64 inp (ioff + 8) XOR (xxh3_readLE64 sec (soff + 8) - seed))"

definition accumulate_lane :: "u8 list \<Rightarrow> nat \<Rightarrow> u8 list \<Rightarrow> nat \<Rightarrow> u64 list \<Rightarrow> nat \<Rightarrow> u64 list" where
  "accumulate_lane inp ioff sec soff acc i =
     (let data_val = xxh3_readLE64 inp (ioff + 8 * i);
          data_key = data_val XOR xxh3_readLE64 sec (soff + i * 8);
          acc1 = acc[(i XOR 1) := acc ! (i XOR 1) + data_val]
      in acc1[i := acc1 ! i + ucast (ucast data_key :: u32) * drop_bit 32 data_key])"

definition xxh3_accumulate_512 :: "u64 list \<Rightarrow> u8 list \<Rightarrow> nat \<Rightarrow> u8 list \<Rightarrow> nat \<Rightarrow> u64 list" where
  "xxh3_accumulate_512 acc inp ioff sec soff =
     foldl (accumulate_lane inp ioff sec soff) acc [0..<XXH3_ACC_NB]"

definition scramble_acc :: "u8 list \<Rightarrow> nat \<Rightarrow> u64 list \<Rightarrow> u64 list" where
  "scramble_acc sec secretSize acc =
     foldl (\<lambda>a i. a[i := (a ! i XOR drop_bit 47 (a ! i) XOR
                           xxh3_readLE64 sec (secretSize - XXH3_STRIPE_LEN + 8 * i)) *
                          ucast XXH3_PRIME32_1])
           acc [0..<XXH3_ACC_NB]"

definition xxh3_hashLong_64b_internal :: "u8 list \<Rightarrow> nat \<Rightarrow> u8 list \<Rightarrow> nat \<Rightarrow> u64" where
  "xxh3_hashLong_64b_internal inp len sec secretSize =
     (let acc0 = [ucast XXH3_PRIME32_3, XXH3_PRIME64_1, XXH3_PRIME64_2, XXH3_PRIME64_3,
                  XXH3_PRIME64_4, ucast XXH3_PRIME32_2, XXH3_PRIME64_5, ucast XXH3_PRIME32_1];
          nbStripesPerBlock = (secretSize - XXH3_STRIPE_LEN) div XXH3_SECRET_CONSUME_RATE;
          block_len = XXH3_STRIPE_LEN * nbStripesPerBlock;
          nb_blocks = (len - 1) div block_len;
          acc1 = foldl (\<lambda>a n.
                   scramble_acc sec secretSize
                     (foldl (\<lambda>b i. xxh3_accumulate_512 b inp (n * block_len + i * XXH3_STRIPE_LEN)
                                       sec (i * XXH3_SECRET_CONSUME_RATE))
                            a [0..<nbStripesPerBlock]))
                   acc0 [0..<nb_blocks];
          nbStripes = ((len - 1) - block_len * nb_blocks) div XXH3_STRIPE_LEN;
          acc2 = foldl (\<lambda>b i. xxh3_accumulate_512 b inp (nb_blocks * block_len + i * XXH3_STRIPE_LEN)
                                 sec (i * XXH3_SECRET_CONSUME_RATE))
                       acc1 [0..<nbStripes];
          acc3 = xxh3_accumulate_512 acc2 inp (len - XXH3_STRIPE_LEN)
                   sec (secretSize - XXH3_STRIPE_LEN - 7);
          result = foldl (\<lambda>r i. r + xxh3_mul128_fold64
                                        (acc3 ! (2 * i) XOR xxh3_readLE64 sec (11 + 16 * i))
                                        (acc3 ! (2 * i + 1) XOR xxh3_readLE64 sec (11 + 16 * i + 8)))
                         (of_nat len * XXH3_PRIME64_1) [0..<4]
      in xxh3_XXH3_avalanche result)"

text \<open>
  The loop of the 17..128 byte branch:
  \<^verbatim>\<open>for (size_t i = 0, j = len; j > i; i += 16, j -= 16)\<close>.
\<close>

function mix_17_128 :: "u8 list \<Rightarrow> u8 list \<Rightarrow> u64 \<Rightarrow> nat \<Rightarrow> nat \<Rightarrow> nat \<Rightarrow> u64 \<Rightarrow> u64" where
  "mix_17_128 inp sec seed i j secret_off acc =
     (if j > i
      then mix_17_128 inp sec seed (i + 16) (j - 16) (secret_off + 32)
             (acc + xxh3_mix16B inp i sec secret_off seed
                  + xxh3_mix16B inp (j - 16) sec (secret_off + 16) seed)
      else acc)"
  by pat_completeness auto
termination
  by (relation "measure (\<lambda>(inp, sec, seed, i, j, secret_off, acc). j - i)") auto

declare mix_17_128.simps [simp del]

definition xxh3_XXH3_64bits_internal ::
  "u8 list \<Rightarrow> nat \<Rightarrow> u64 \<Rightarrow> u8 list \<Rightarrow> nat \<Rightarrow>
   (u8 list \<Rightarrow> nat \<Rightarrow> u64 \<Rightarrow> u8 list \<Rightarrow> nat \<Rightarrow> u64) \<Rightarrow> u64" where
  "xxh3_XXH3_64bits_internal inp len seed sec secretLen f_hashLong =
     (if len = 0 then
        xxh3_XXH64_avalanche (seed XOR (xxh3_readLE64 sec 56 XOR xxh3_readLE64 sec 64))
      else if len < 4 then
        (let combined :: u32 =
               push_bit 16 (ucast (inp ! 0)) OR push_bit 24 (ucast (inp ! (len div 2))) OR
               ucast (inp ! (len - 1)) OR push_bit 8 (of_nat len);
             keyed :: u64 =
               ucast combined XOR (ucast (xxh3_readLE32 sec 0 XOR xxh3_readLE32 sec 4) + seed)
         in xxh3_XXH64_avalanche keyed)
      else if len \<le> 8 then
        (let keyed :: u64 =
               (ucast (xxh3_readLE32 inp (len - 4)) + push_bit 32 (ucast (xxh3_readLE32 inp 0))) XOR
               ((xxh3_readLE64 sec 8 XOR xxh3_readLE64 sec 16) -
                (seed XOR push_bit 32 (ucast (xxh3_swap32 (ucast seed)))))
         in xxh3_rrmxmx keyed (of_nat len))
      else if len \<le> 16 then
        (let input_lo = xxh3_readLE64 inp 0 XOR
                        ((xxh3_readLE64 sec 24 XOR xxh3_readLE64 sec 32) + seed);
             input_hi = xxh3_readLE64 inp (len - 8) XOR
                        ((xxh3_readLE64 sec 40 XOR xxh3_readLE64 sec 48) - seed);
             acc = of_nat len + xxh3_swap64 input_lo + input_hi +
                   xxh3_mul128_fold64 input_lo input_hi
         in xxh3_XXH3_avalanche acc)
      else if len \<le> 128 then
        xxh3_XXH3_avalanche (mix_17_128 inp sec seed 0 len 0 (of_nat len * XXH3_PRIME64_1))
      else if len \<le> 240 then
        (let acc0 = foldl (\<lambda>a i. a + xxh3_mix16B inp i sec i seed)
                          (of_nat len * XXH3_PRIME64_1) (map (\<lambda>k. 16 * k) [0..<8]);
             acc1 = xxh3_XXH3_avalanche acc0;
             acc2 = foldl (\<lambda>a i. a + xxh3_mix16B inp i sec ((i - 128) + 3) seed)
                          acc1 (map (\<lambda>k. 16 * k) [8..<len div 16]);
             acc3 = acc2 + xxh3_mix16B inp (len - 16) sec (XXH3_SECRET_SIZE_MIN - 17) seed
         in xxh3_XXH3_avalanche acc3)
      else f_hashLong inp len seed sec secretLen)"

definition xxh3_hashLong_default_secret :: "u8 list \<Rightarrow> nat \<Rightarrow> u64 \<Rightarrow> u8 list \<Rightarrow> nat \<Rightarrow> u64" where
  "xxh3_hashLong_default_secret inp len seed sec secretLen =
     xxh3_hashLong_64b_internal inp len xxh3_kSecret (length xxh3_kSecret)"

definition xxh3_XXH3_64bits_const :: "u8 list \<Rightarrow> nat \<Rightarrow> u64" where
  "xxh3_XXH3_64bits_const inp len =
     xxh3_XXH3_64bits_internal inp len 0 xxh3_kSecret (length xxh3_kSecret)
       xxh3_hashLong_default_secret"

text \<open>
  Every call of the library is \<^verbatim>\<open>xxh3(s, strlen(s))\<close> on a C string; \<open>xxh3\<close> is that
  call, on the characters before the terminator.
\<close>

definition xxh3 :: "string \<Rightarrow> u64" where
  "xxh3 s = xxh3_XXH3_64bits_const (map of_char s) (length s)"

section \<open>Constants and data of symspell.c\<close>

definition SYMSPELL_MAX_TERM_LENGTH :: nat where "SYMSPELL_MAX_TERM_LENGTH = 128"
definition SYMSPELL_MAX_EDIT_DISTANCE :: int where "SYMSPELL_MAX_EDIT_DISTANCE = 3"
definition INITIAL_ENTRY_CAPACITY :: nat where "INITIAL_ENTRY_CAPACITY = 4"
definition DELETE_QUEUE_CAPACITY :: nat where "DELETE_QUEUE_CAPACITY = 10000"
definition MAX_LINE_BUFFER :: nat where "MAX_LINE_BUFFER = 512"
definition MAX_PARTS_PER_LINE :: nat where "MAX_PARTS_PER_LINE = 10"
definition MAX_CANDIDATES_PER_LOOKUP :: nat where "MAX_CANDIDATES_PER_LOOKUP = 10000"
definition STRING_ARENA_SIZE :: nat where "STRING_ARENA_SIZE = 128 * 1024 * 1024"
definition ENTRY_ARENA_SIZE :: nat where "ENTRY_ARENA_SIZE = 128 * 1024 * 1024"
definition TABLE_SIZE_D1 :: nat where "TABLE_SIZE_D1 = 524287"
definition TABLE_SIZE_D2 :: nat where "TABLE_SIZE_D2 = 4194301"
definition TABLE_SIZE_D3 :: nat where "TABLE_SIZE_D3 = 33554393"
definition EXACT_MATCH_TABLE_SIZE :: nat where "EXACT_MATCH_TABLE_SIZE = 524287"

text \<open>
  \<^verbatim>\<open>sizeof(delete_entry_t)\<close>: three pointers and two \<^verbatim>\<open>size_t\<close>, 40 bytes where
  pointers and \<^verbatim>\<open>size_t\<close> are 64 bits wide.
\<close>

definition SIZEOF_DELETE_ENTRY :: nat where "SIZEOF_DELETE_ENTRY = 40"

text \<open>
  A \<^verbatim>\<open>float\<close> is held as the real number it stands for, with the two special
  values a division by zero produces. The conversion of a count and the division
  round to 24 bits (\<open>float_div\<close> below); \<^verbatim>\<open>logf\<close> is taken at its exact value \<open>ln\<close>.
\<close>

datatype cfloat = Finite real | PosInf | NaN

text \<open>
  \<^verbatim>\<open>exit(1)\<close> ends the process: a function that reaches it returns \<open>Inl (Exit 1)\<close>
  and every caller passes that on.
\<close>

datatype abort = Exit int

record arena =
  capacity :: nat
  used :: nat

text \<open>
  A delete entry: \<open>words\<close> and \<open>word_frequencies\<close> hold the first \<^verbatim>\<open>count\<close> slots of
  the arrays \<^verbatim>\<open>words[]\<close> and \<^verbatim>\<open>frequencies[]\<close>, so \<^verbatim>\<open>count\<close> is \<open>length (words e)\<close>;
  the strings the pointers lead to are held by value.
\<close>

record delete_entry =
  delete_str :: string
  words :: "string list"
  word_frequencies :: "u64 list"
  entry_capacity :: nat

record exact_match_table =
  hashes :: "nat \<Rightarrow> u64"
  frequencies :: "nat \<Rightarrow> u64"
  probabilities :: "nat \<Rightarrow> cfloat"
  iwf :: "nat \<Rightarrow> cfloat"
  exact_table_size :: nat

text \<open>
  The dictionary. A slot of \<^verbatim>\<open>table\<close> is \<open>None\<close> for a null pointer. The mutex and
  the two work buffers carry nothing from one call to the next and are left out.
\<close>

record symspell_dict =
  table :: "nat \<Rightarrow> delete_entry option"
  exact_table :: exact_match_table
  table_size :: nat
  max_edit_distance :: int
  prefix_length :: int
  word_count :: u64
  entry_count :: u64
  string_arena :: arena
  entry_arena :: arena
  delete_buffer_capacity :: nat

record symspell_suggestion =
  s_term :: string
  s_distance :: int
  s_frequency :: u64
  s_probability :: cfloat
  s_iwf :: cfloat

section \<open>Arena allocator\<close>

text \<open>
  \<^verbatim>\<open>(arena->used + 7) & ~7\<close> rounds \<^verbatim>\<open>used\<close> up to a multiple of 8. The sums and
  the product are taken in \<^verbatim>\<open>size_t\<close>, 64 bits wide, so they wrap at \<open>2 ^ 64\<close>. The
  result is the offset of the block and the arena after the allocation.
\<close>

definition SIZE_RANGE :: nat where "SIZE_RANGE = 18446744073709551616"

definition arena_alloc :: "arena \<Rightarrow> nat \<Rightarrow> abort + (nat \<times> arena)" where
  "arena_alloc a sz =
     (let aligned_used = (((used a + 7) mod SIZE_RANGE) div 8) * 8
      in if (aligned_used + sz) mod SIZE_RANGE > capacity a then Inl (Exit 1)
         else Inr (aligned_used, a\<lparr>used := (aligned_used + sz) mod SIZE_RANGE\<rparr>))"

definition arena_calloc :: "arena \<Rightarrow> nat \<Rightarrow> nat \<Rightarrow> abort + (nat \<times> arena)" where
  "arena_calloc a num sz = arena_alloc a ((num * sz) mod SIZE_RANGE)"

definition arena_strdup :: "arena \<Rightarrow> string \<Rightarrow> abort + (string \<times> arena)" where
  "arena_strdup a s =
     (case arena_alloc a (length s + 1) of
        Inl e \<Rightarrow> Inl e
      | Inr (p, a') \<Rightarrow> Inr (s, a'))"

section \<open>Strings and numbers\<close>

definition c_tolower :: "char \<Rightarrow> char" where
  "c_tolower c =
     (if (65::nat) \<le> of_char c \<and> (of_char c :: nat) \<le> 90
      then char_of (of_char c + (32::nat)) else c)"

definition str_tolower :: "string \<Rightarrow> string" where
  "str_tolower s = map c_tolower s"

definition calculate_iwf :: "cfloat \<Rightarrow> cfloat" where
  "calculate_iwf probability =
     (case probability of
        Finite p \<Rightarrow> if p > 0 then Finite \<bar>- ln p\<bar> else Finite 99
      | PosInf \<Rightarrow> PosInf
      | NaN \<Rightarrow> Finite 99)"

text \<open>
  A float is held as the real number it denotes. \<^verbatim>\<open>(float)n\<close> rounds a 64-bit count to
  the 24 significant bits of a float, a tie going to the even neighbour, and the
  quotient of two such values is rounded the same way. \<open>bit_length n\<close> is the number of
  bits of \<open>n\<close>, \<open>round_even p q\<close> the integer nearest to \<open>p / q\<close>. The quotient of two
  counts lies between \<open>2 ^ - 64\<close> and \<open>2 ^ 64\<close>, inside the normal range of a float.
\<close>

fun bit_length :: "nat \<Rightarrow> nat" where
  "bit_length n = (if n = 0 then 0 else Suc (bit_length (n div 2)))"

declare bit_length.simps [simp del]

definition round_even :: "nat \<Rightarrow> nat \<Rightarrow> nat" where
  "round_even p q =
     (let d = p div q; r = p mod q
      in if 2 * r > q \<or> (2 * r = q \<and> odd d) then d + 1 else d)"

definition float_of_u64 :: "u64 \<Rightarrow> nat" where
  "float_of_u64 a =
     (let n = unat a; l = bit_length n
      in if l \<le> 24 then n else round_even n (2 ^ (l - 24)) * 2 ^ (l - 24))"

text \<open>
  \<open>x / y\<close> for two float values that are positive whole numbers: the quotient is
  scaled by \<open>2 ^ - e\<close> into the range from \<open>2 ^ 23\<close> to \<open>2 ^ 24\<close>, rounded, and scaled
  back.
\<close>

definition float_quot :: "nat \<Rightarrow> nat \<Rightarrow> real" where
  "float_quot x y =
     (let e0 = int (bit_length x) - int (bit_length y) - 24;
          e = (if x * 2 ^ nat (- e0) \<ge> 2 ^ 24 * (y * 2 ^ nat e0) then e0 + 1 else e0);
          n = round_even (x * 2 ^ nat (- e)) (y * 2 ^ nat e)
      in real (n * 2 ^ nat e) / real (2 ^ nat (- e)))"

text \<open>\<^verbatim>\<open>(float)a / (float)b\<close> for two unsigned 64-bit counts.\<close>

definition float_div :: "u64 \<Rightarrow> u64 \<Rightarrow> cfloat" where
  "float_div a b =
     (if b = 0 then (if a = 0 then NaN else PosInf)
      else if a = 0 then Finite 0
      else Finite (float_quot (float_of_u64 a) (float_of_u64 b)))"

definition c_isspace :: "char \<Rightarrow> bool" where
  "c_isspace c = (c = CHR '' '' \<or> ((9::nat) \<le> of_char c \<and> (of_char c :: nat) \<le> 13))"

definition c_isdigit :: "char \<Rightarrow> bool" where
  "c_isdigit c = ((48::nat) \<le> of_char c \<and> (of_char c :: nat) \<le> 57)"

text \<open>
  \<^verbatim>\<open>strtoull(s, NULL, 10)\<close>: leading white space, an optional sign, then decimal
  digits; 0 when there is no digit, \<^verbatim>\<open>ULLONG_MAX\<close> when the digits exceed 64 bits, and
  the negation modulo \<open>2 ^ 64\<close> after a minus sign.
\<close>

definition strtoull :: "string \<Rightarrow> u64" where
  "strtoull s =
     (let s1 = dropWhile c_isspace s;
          neg = (s1 \<noteq> [] \<and> hd s1 = CHR ''-'');
          s2 = (if s1 \<noteq> [] \<and> (hd s1 = CHR ''-'' \<or> hd s1 = CHR ''+'') then tl s1 else s1);
          digits = takeWhile c_isdigit s2;
          v = foldl (\<lambda>acc c. 10 * acc + (of_char c - 48)) (0::int) digits
      in if v > 2 ^ 64 - 1 then - 1
         else if neg then - word_of_int v else word_of_int v)"

section \<open>Damerau-Levenshtein distance\<close>

text \<open>
  The matrix \<^verbatim>\<open>d\<close> is filled row by row; a row needs the two rows above it. \<open>ed_cell\<close>
  is the body of the inner loop at \<^verbatim>\<open>(i, j)\<close>, appending \<^verbatim>\<open>d[i][j]\<close> to the row so far.
\<close>

definition ed_cell :: "string \<Rightarrow> string \<Rightarrow> nat \<Rightarrow> int list \<Rightarrow> int list \<Rightarrow> int list \<Rightarrow> nat \<Rightarrow> int list" where
  "ed_cell s1 s2 i prev2 prev cur j =
     (let cost = (if s1 ! (i - 1) = s2 ! (j - 1) then 0 else 1);
          delete_cost = prev ! j + 1;
          insert_cost = cur ! (j - 1) + 1;
          subst_cost = prev ! (j - 1) + cost;
          v0 = (if delete_cost < insert_cost then delete_cost else insert_cost);
          v1 = (if subst_cost < v0 then subst_cost else v0);
          v2 = (if i > 1 \<and> j > 1 \<and> s1 ! (i - 1) = s2 ! (j - 2) \<and> s1 ! (i - 2) = s2 ! (j - 1)
                then (let trans_cost = prev2 ! (j - 2) + 1
                      in if trans_cost < v1 then trans_cost else v1)
                else v1)
      in cur @ [v2])"

definition ed_row :: "string \<Rightarrow> string \<Rightarrow> nat \<Rightarrow> int list \<Rightarrow> int list \<Rightarrow> int list" where
  "ed_row s1 s2 i prev2 prev = foldl (ed_cell s1 s2 i prev2 prev) [int i] [1..<Suc (length s2)]"

definition min_in_row :: "int list \<Rightarrow> int" where
  "min_in_row row = foldl (\<lambda>m x. if x < m then x else m) (row ! 0) (drop 1 row)"

fun ed_rows :: "string \<Rightarrow> string \<Rightarrow> int \<Rightarrow> nat list \<Rightarrow> int list \<Rightarrow> int list \<Rightarrow> int" where
  "ed_rows s1 s2 max_distance [] prev2 prev = prev ! length s2"
| "ed_rows s1 s2 max_distance (i # rest) prev2 prev =
     (let cur = ed_row s1 s2 i prev2 prev
      in if min_in_row cur > max_distance then max_distance + 1
         else ed_rows s1 s2 max_distance rest prev cur)"

definition edit_distance :: "string \<Rightarrow> string \<Rightarrow> int \<Rightarrow> int" where
  "edit_distance s1 s2 max_distance =
     (let len1 = length s1; len2 = length s2
      in if len1 \<ge> SYMSPELL_MAX_TERM_LENGTH \<or> len2 \<ge> SYMSPELL_MAX_TERM_LENGTH
         then max_distance + 1
         else if \<bar>int len1 - int len2\<bar> > max_distance then max_distance + 1
         else ed_rows s1 s2 max_distance [1..<Suc len1] [] (map int [0..<Suc len2]))"

section \<open>Delete enumerator\<close>

text \<open>
  \<^verbatim>\<open>snprintf(buf, 128, "%.*s", prec, s)\<close>: at most \<^verbatim>\<open>prec\<close> bytes of \<^verbatim>\<open>s\<close> (all of
  it when the precision is negative), cut to the 127 bytes the buffer holds.
\<close>

definition snprintf_prec :: "int \<Rightarrow> string \<Rightarrow> string" where
  "snprintf_prec prec s =
     take (SYMSPELL_MAX_TERM_LENGTH - 1) (if prec < 0 then s else take (nat prec) s)"

definition delete_char_at :: "string \<Rightarrow> nat \<Rightarrow> string" where
  "delete_char_at s i = take i s @ drop (Suc i) s"

text \<open>
  The state of the enumeration is the output so far (\<^verbatim>\<open>deletes_out[0..delete_count)\<close>),
  the live part of the queue (\<^verbatim>\<open>queue[queue_start..queue_end)\<close>) and \<^verbatim>\<open>queue_end\<close>.
  The transient hash set holds exactly the strings written to the output, so a search
  in it is a search in the output. \<open>delete_step\<close> is the body of the loop over the
  position \<^verbatim>\<open>i\<close> that is deleted. Heap allocation (\<^verbatim>\<open>malloc\<close>, \<^verbatim>\<open>str_dup\<close>, the hash
  set) is taken to succeed.
\<close>

type_synonym delete_state = "string list \<times> (string \<times> int) list \<times> nat"

definition delete_step :: "string \<Rightarrow> int \<Rightarrow> nat \<Rightarrow> delete_state \<Rightarrow> nat \<Rightarrow> delete_state" where
  "delete_step cur distance max_deletes st i =
     (case st of (dels, queue, queue_end) \<Rightarrow>
        (let deleted = delete_char_at cur i;
             dels' = (if deleted \<notin> set dels \<and> length dels < max_deletes
                      then dels @ [deleted] else dels)
         in if queue_end < DELETE_QUEUE_CAPACITY \<and> deleted \<notin> set (map fst queue)
            then (dels', queue @ [(deleted, distance + 1)], queue_end + 1)
            else (dels', queue, queue_end)))"

definition delete_steps :: "string \<Rightarrow> int \<Rightarrow> nat \<Rightarrow> delete_state \<Rightarrow> delete_state" where
  "delete_steps cur distance max_deletes st =
     foldl (delete_step cur distance max_deletes) st [0..<length cur]"

definition delete_measure :: "delete_state \<Rightarrow> nat" where
  "delete_measure st =
     (case st of (dels, queue, queue_end) \<Rightarrow> (DELETE_QUEUE_CAPACITY - queue_end) + length queue)"

lemma delete_step_measure:
  "delete_measure (delete_step cur distance max_deletes st i) = delete_measure st"
  by (cases st) (auto simp: delete_step_def delete_measure_def Let_def)

lemma delete_steps_measure:
  "delete_measure (delete_steps cur distance max_deletes st) = delete_measure st"
proof -
  have "delete_measure (foldl (delete_step cur distance max_deletes) st js) = delete_measure st" for js
    by (induction js arbitrary: st) (simp_all add: delete_step_measure)
  then show ?thesis by (simp add: delete_steps_def)
qed

function deletes_loop :: "int \<Rightarrow> nat \<Rightarrow> delete_state \<Rightarrow> string list" where
  "deletes_loop max_distance max_deletes (dels, [], queue_end) = dels"
| "deletes_loop max_distance max_deletes (dels, (cur, distance) # queue, queue_end) =
     (if length dels < max_deletes
      then (if distance \<ge> max_distance \<or> length cur \<le> 1
            then deletes_loop max_distance max_deletes (dels, queue, queue_end)
            else deletes_loop max_distance max_deletes
                   (delete_steps cur distance max_deletes (dels, queue, queue_end)))
      else dels)"
  by pat_completeness auto
termination
  by (relation "measure (\<lambda>(max_distance, max_deletes, st). delete_measure st)")
     (auto simp: delete_steps_measure, auto simp: delete_measure_def)

text \<open>
  The prefix buffer: \<^verbatim>\<open>snprintf(prefix, sizeof(prefix), "%.*s", (word_len > prefix_length) ?
  prefix_length : word_len, word)\<close>.
\<close>

definition delete_prefix :: "string \<Rightarrow> int \<Rightarrow> string" where
  "delete_prefix word prefix_len_arg =
     snprintf_prec (if int (length word) > prefix_len_arg then prefix_len_arg
                    else int (length word)) word"

definition generate_all_deletes_reuse :: "string \<Rightarrow> int \<Rightarrow> int \<Rightarrow> nat \<Rightarrow> string list" where
  "generate_all_deletes_reuse word max_distance prefix_len_arg max_deletes =
     (let word_len = length word
      in if word_len = 0 then []
         else
           (let prefix = delete_prefix word prefix_len_arg;
                prefix_len = length prefix;
                dels0 = (if int prefix_len \<le> max_distance \<and> 0 < max_deletes then [''''] else []);
                dels1 = (if length dels0 < max_deletes \<and> prefix \<notin> set dels0
                         then dels0 @ [prefix] else dels0)
            in deletes_loop max_distance max_deletes (dels1, [(prefix, 0)], 1)))"

section \<open>Building the dictionary\<close>

text \<open>
  The scan of \<^verbatim>\<open>add_to_entry\<close> for the word: the first index that holds it.
\<close>

fun find_word :: "string list \<Rightarrow> string \<Rightarrow> nat option" where
  "find_word [] w = None"
| "find_word (x # xs) w = (if x = w then Some 0 else map_option Suc (find_word xs w))"

text \<open>
  \<^verbatim>\<open>add_to_entry\<close> changes the entry and, through \<^verbatim>\<open>arena_strdup\<close>, the string arena
  of the dictionary; both come back. \<^verbatim>\<open>realloc\<close> is taken to succeed.
\<close>

definition add_to_entry ::
  "symspell_dict \<Rightarrow> delete_entry \<Rightarrow> string \<Rightarrow> u64 \<Rightarrow> abort + (bool \<times> symspell_dict \<times> delete_entry)" where
  "add_to_entry dict entry word freq =
     (case find_word (words entry) word of
        Some i \<Rightarrow>
          Inr (True, dict,
               if freq > word_frequencies entry ! i
               then entry\<lparr>word_frequencies := (word_frequencies entry)[i := freq]\<rparr>
               else entry)
      | None \<Rightarrow>
          (let entry1 =
                 (if length (words entry) \<ge> entry_capacity entry
                  then entry\<lparr>entry_capacity :=
                         (if entry_capacity entry = 0 then INITIAL_ENTRY_CAPACITY
                          else entry_capacity entry * 2)\<rparr>
                  else entry)
           in case arena_strdup (string_arena dict) word of
                Inl e \<Rightarrow> Inl e
              | Inr (w, a) \<Rightarrow>
                  Inr (True, dict\<lparr>string_arena := a\<rparr>,
                       entry1\<lparr>words := words entry1 @ [w],
                              word_frequencies := word_frequencies entry1 @ [freq]\<rparr>)))"

text \<open>The probe loop of \<^verbatim>\<open>add_exact_match\<close>, from probe number \<open>probe\<close> on.\<close>

function exact_insert :: "exact_match_table \<Rightarrow> u64 \<Rightarrow> u64 \<Rightarrow> nat \<Rightarrow> nat \<Rightarrow> bool \<times> exact_match_table" where
  "exact_insert t word_hash freq idx probe =
     (if probe < exact_table_size t
      then (let pos = (idx + probe) mod exact_table_size t
            in if hashes t pos = 0
               then (True, t\<lparr>hashes := (hashes t)(pos := word_hash),
                              frequencies := (frequencies t)(pos := freq)\<rparr>)
               else if hashes t pos = word_hash
               then (True, if freq > frequencies t pos
                           then t\<lparr>frequencies := (frequencies t)(pos := freq)\<rparr> else t)
               else exact_insert t word_hash freq idx (probe + 1))
      else (False, t))"
  by pat_completeness auto
termination
  by (relation "measure (\<lambda>(t, word_hash, freq, idx, probe). exact_table_size t - probe)") auto

declare exact_insert.simps [simp del]

definition add_exact_match :: "symspell_dict \<Rightarrow> string \<Rightarrow> u64 \<Rightarrow> bool \<times> symspell_dict" where
  "add_exact_match dict word freq =
     (let word_hash = xxh3 word;
          idx = unat word_hash mod exact_table_size (exact_table dict)
      in case exact_insert (exact_table dict) word_hash freq idx 0 of
           (ok, t) \<Rightarrow> (ok, dict\<lparr>exact_table := t\<rparr>))"

text \<open>
  The slot probe number \<open>i\<close> looks at in the delete table: \<^verbatim>\<open>(hash + i) % table_size\<close>,
  the sum taken in 64 bits.
\<close>

definition delete_slot :: "symspell_dict \<Rightarrow> u64 \<Rightarrow> nat \<Rightarrow> nat" where
  "delete_slot dict hash i = unat (hash + of_nat i) mod table_size dict"

function add_delete_probe ::
  "symspell_dict \<Rightarrow> string \<Rightarrow> string \<Rightarrow> u64 \<Rightarrow> u64 \<Rightarrow> nat \<Rightarrow> abort + (bool \<times> symspell_dict)" where
  "add_delete_probe dict del word freq hash i =
     (if i < table_size dict
      then (let idx = delete_slot dict hash i
            in case table dict idx of
                 None \<Rightarrow>
                   (case arena_calloc (entry_arena dict) 1 SIZEOF_DELETE_ENTRY of
                      Inl e \<Rightarrow> Inl e
                    | Inr (p, ea) \<Rightarrow>
                       (let dict1 = dict\<lparr>entry_arena := ea\<rparr>
                        in case arena_strdup (string_arena dict1) del of
                             Inl e \<Rightarrow> Inl e
                           | Inr (s, sa) \<Rightarrow>
                              (let dict2 = dict1\<lparr>string_arena := sa\<rparr>;
                                   entry = \<lparr>delete_str = s, words = [], word_frequencies = [],
                                            entry_capacity = 0\<rparr>
                               in case add_to_entry dict2 entry word freq of
                                    Inl e \<Rightarrow> Inl e
                                  | Inr (ok, dict3, entry') \<Rightarrow>
                                      if \<not> ok then Inr (False, dict3)
                                      else Inr (True, dict3\<lparr>table := (table dict3)(idx \<mapsto> entry'),
                                                            entry_count := entry_count dict3 + 1\<rparr>))))
               | Some entry \<Rightarrow>
                   if delete_str entry = del
                   then (case add_to_entry dict entry word freq of
                           Inl e \<Rightarrow> Inl e
                         | Inr (ok, dict1, entry') \<Rightarrow>
                             Inr (ok, dict1\<lparr>table := (table dict1)(idx \<mapsto> entry')\<rparr>))
                   else add_delete_probe dict del word freq hash (i + 1))
      else Inr (False, dict))"
  by pat_completeness auto
termination
  by (relation "measure (\<lambda>(dict, del, word, freq, hash, i). table_size dict - i)") auto

declare add_delete_probe.simps [simp del]

definition add_delete :: "symspell_dict \<Rightarrow> string \<Rightarrow> string \<Rightarrow> u64 \<Rightarrow> abort + (bool \<times> symspell_dict)" where
  "add_delete dict del word freq = add_delete_probe dict del word freq (xxh3 del) 0"

text \<open>
  The loop of \<^verbatim>\<open>generate_deletes\<close> over the delete variants; the result of
  \<^verbatim>\<open>add_delete\<close> is not looked at.
\<close>

fun add_deletes :: "symspell_dict \<Rightarrow> string list \<Rightarrow> string \<Rightarrow> u64 \<Rightarrow> abort + symspell_dict" where
  "add_deletes dict [] word freq = Inr dict"
| "add_deletes dict (del # dels) word freq =
     (case add_delete dict del word freq of
        Inl e \<Rightarrow> Inl e
      | Inr (ok, dict') \<Rightarrow> add_deletes dict' dels word freq)"

definition generate_deletes :: "symspell_dict \<Rightarrow> string \<Rightarrow> u64 \<Rightarrow> abort + (bool \<times> symspell_dict)" where
  "generate_deletes dict word freq =
     (case add_deletes dict
             (generate_all_deletes_reuse word (max_edit_distance dict) (prefix_length dict)
                (delete_buffer_capacity dict))
             word freq of
        Inl e \<Rightarrow> Inl e
      | Inr dict' \<Rightarrow> Inr (True, dict'))"

text \<open>
  \<^verbatim>\<open>symspell_create\<close>. Each allocation and the mutex initialisation can fail; \<open>ok\<close>
  tells which of them succeed. \<open>None\<close> is the null pointer.
\<close>

datatype resource =
  Dict_struct | Lookup_mutex | Delete_table | Exact_table_struct | Hashes_array |
  Frequencies_array | Probabilities_array | Iwf_array | Delete_work_buffer |
  Candidate_buffer | String_arena_memory | Entry_arena_memory

definition symspell_create :: "(resource \<Rightarrow> bool) \<Rightarrow> int \<Rightarrow> int \<Rightarrow> symspell_dict option" where
  "symspell_create ok max_edit_distance_arg prefix_length_arg =
     (if max_edit_distance_arg < 1 \<or> max_edit_distance_arg > SYMSPELL_MAX_EDIT_DISTANCE then None
      else if \<not> ok Dict_struct then None
      else if \<not> ok Lookup_mutex then None
      else if \<not> ok Delete_table then None
      else if \<not> ok Exact_table_struct then None
      else if \<not> ok Hashes_array then None
      else if \<not> ok Frequencies_array then None
      else if \<not> ok Probabilities_array then None
      else if \<not> ok Iwf_array then None
      else if \<not> ok Delete_work_buffer then None
      else if \<not> ok Candidate_buffer then None
      else if \<not> ok String_arena_memory then None
      else if \<not> ok Entry_arena_memory then None
      else Some \<lparr>table = (\<lambda>i. None),
                 exact_table = \<lparr>hashes = (\<lambda>i. 0), frequencies = (\<lambda>i. 0),
                                probabilities = (\<lambda>i. Finite 0), iwf = (\<lambda>i. Finite 0),
                                exact_table_size = EXACT_MATCH_TABLE_SIZE\<rparr>,
                 table_size = (if max_edit_distance_arg = 1 then TABLE_SIZE_D1
                               else if max_edit_distance_arg = 2 then TABLE_SIZE_D2
                               else TABLE_SIZE_D3),
                 max_edit_distance = max_edit_distance_arg,
                 prefix_length = prefix_length_arg,
                 word_count = 0,
                 entry_count = 0,
                 string_arena = \<lparr>capacity = STRING_ARENA_SIZE, used = 0\<rparr>,
                 entry_arena = \<lparr>capacity = ENTRY_ARENA_SIZE, used = 0\<rparr>,
                 delete_buffer_capacity = DELETE_QUEUE_CAPACITY\<rparr>)"

section \<open>Loading a dictionary file\<close>

text \<open>
  \<^verbatim>\<open>fgets(line, n, fp)\<close> on the unread rest of the file: at most \<open>n - 1\<close> bytes, ending
  after the first newline. \<open>fgets k\<close> is given \<open>k = n - 1\<close> and returns what was read
  and what is left.
\<close>

fun fgets :: "nat \<Rightarrow> string \<Rightarrow> string \<times> string" where
  "fgets k [] = ([], [])"
| "fgets k (c # cs) =
     (if k = 0 then ([], c # cs)
      else if c = CHR 0x0A then ([c], cs)
      else (case fgets (k - 1) cs of (l, r) \<Rightarrow> (c # l, r)))"

lemma fgets_shorter: "0 < k \<Longrightarrow> s \<noteq> [] \<Longrightarrow> length (snd (fgets k s)) < length s"
proof (induction k s rule: fgets.induct)
  case (1 k)
  then show ?case by simp
next
  case (2 k c cs)
  show ?case
  proof (cases "c = CHR 0x0A \<or> cs = [] \<or> k - 1 = 0")
    case True
    with 2 show ?thesis by (cases cs) (auto split: prod.splits)
  next
    case False
    with 2 have "length (snd (fgets (k - 1) cs)) < length cs" by simp
    with 2 False show ?thesis by (auto split: prod.splits)
  qed
qed

text \<open>The buffers the \<^verbatim>\<open>while (fgets(...))\<close> loop sees, one after the other.\<close>

function file_chunks :: "string \<Rightarrow> string list" where
  "file_chunks s =
     (if s = [] then []
      else fst (fgets (MAX_LINE_BUFFER - 1) s) # file_chunks (snd (fgets (MAX_LINE_BUFFER - 1) s)))"
  by pat_completeness auto
termination
  by (relation "measure length") (auto simp: MAX_LINE_BUFFER_def fgets_shorter)

declare file_chunks.simps [simp del]

text \<open>
  \<^verbatim>\<open>line[strcspn(line, "\r\n")] = '\0'\<close>: the line as a C string ends before the first
  carriage return, newline or zero byte.
\<close>

definition chomp :: "string \<Rightarrow> string" where
  "chomp buf = takeWhile (\<lambda>c. c \<noteq> CHR 0x0D \<and> c \<noteq> CHR 0x0A \<and> c \<noteq> CHR 0x00) buf"

text \<open>
  The tokens \<^verbatim>\<open>strtok(line, " \t")\<close> returns in turn: the maximal runs of bytes that
  are neither a space nor a tab. \<open>cur\<close> is the token being read.
\<close>

fun strtok_all :: "string \<Rightarrow> string \<Rightarrow> string list" where
  "strtok_all [] cur = (if cur = [] then [] else [cur])"
| "strtok_all (c # cs) cur =
     (if c = CHR '' '' \<or> c = CHR 0x09
      then (if cur = [] then strtok_all cs [] else cur # strtok_all cs [])
      else strtok_all cs (cur @ [c]))"

definition line_parts :: "string \<Rightarrow> string list" where
  "line_parts line = take MAX_PARTS_PER_LINE (strtok_all line [])"

text \<open>
  One turn of the loop over the lines. The state is the dictionary and \<^verbatim>\<open>max_freq\<close>.
  The column indices are natural numbers: a negative one would read \<^verbatim>\<open>parts[]\<close> out
  of bounds. \<^verbatim>\<open>total_words\<close> and \<^verbatim>\<open>line_num\<close> only feed the progress messages.
\<close>

definition load_line :: "nat \<Rightarrow> nat \<Rightarrow> symspell_dict \<times> u64 \<Rightarrow> string \<Rightarrow> abort + (symspell_dict \<times> u64)" where
  "load_line term_index count_index st buf =
     (case st of (dict, max_freq) \<Rightarrow>
        (let line = chomp buf
         in if length line = 0 then Inr (dict, max_freq)
            else
              (let parts = line_parts line;
                   part_count = length parts
               in if part_count \<le> term_index \<or> part_count \<le> count_index then Inr (dict, max_freq)
                  else
                    (let freq0 = strtoull (parts ! count_index);
                         freq = (if freq0 = 0 then 1 else freq0);
                         max_freq' = (if max_freq = 0 then freq else max_freq);
                         word = str_tolower (parts ! term_index);
                         dict1 = snd (add_exact_match dict word freq)
                     in case generate_deletes dict1 word freq of
                          Inl e \<Rightarrow> Inl e
                        | Inr (ok, dict2) \<Rightarrow>
                            Inr (dict2\<lparr>word_count := word_count dict2 + 1\<rparr>, max_freq')))))"

fun load_lines :: "nat \<Rightarrow> nat \<Rightarrow> symspell_dict \<times> u64 \<Rightarrow> string list \<Rightarrow> abort + (symspell_dict \<times> u64)" where
  "load_lines term_index count_index st [] = Inr st"
| "load_lines term_index count_index st (buf # bufs) =
     (case load_line term_index count_index st buf of
        Inl e \<Rightarrow> Inl e
      | Inr st' \<Rightarrow> load_lines term_index count_index st' bufs)"

text \<open>
  The sweep after the loop: every slot of the exact-match table whose hash is not 0
  gets its probability and its IWF.
\<close>

definition calculate_probabilities :: "exact_match_table \<Rightarrow> u64 \<Rightarrow> exact_match_table" where
  "calculate_probabilities t max_freq =
     t\<lparr>probabilities :=
          (\<lambda>i. if i < exact_table_size t \<and> hashes t i \<noteq> 0
                then float_div (frequencies t i) max_freq else probabilities t i),
        iwf :=
          (\<lambda>i. if i < exact_table_size t \<and> hashes t i \<noteq> 0
                then calculate_iwf (float_div (frequencies t i) max_freq) else iwf t i)\<rparr>"

text \<open>
  \<^verbatim>\<open>symspell_load_dictionary\<close>. The dictionary and the path are \<open>None\<close> for a null
  pointer; \<open>fs\<close> gives the contents of the files \<^verbatim>\<open>fopen\<close> can open. The result is the
  returned flag with the dictionary as the call leaves it, or the exit of the process.
\<close>

definition symspell_load_dictionary ::
  "(string \<Rightarrow> string option) \<Rightarrow> symspell_dict option \<Rightarrow> string option \<Rightarrow> nat \<Rightarrow> nat \<Rightarrow>
   abort + (bool \<times> symspell_dict option)" where
  "symspell_load_dictionary fs dict_ptr filepath term_index count_index =
     (case dict_ptr of
        None \<Rightarrow> Inr (False, None)
      | Some dict \<Rightarrow>
         (case filepath of
            None \<Rightarrow> Inr (False, Some dict)
          | Some path \<Rightarrow>
             (case fs path of
                None \<Rightarrow> Inr (False, Some dict)
              | Some content \<Rightarrow>
                 (case load_lines term_index count_index (dict, 0) (file_chunks content) of
                    Inl e \<Rightarrow> Inl e
                  | Inr (dict1, max_freq) \<Rightarrow>
                      Inr (True, Some (dict1\<lparr>exact_table :=
                                   calculate_probabilities (exact_table dict1) max_freq\<rparr>))))))"

section \<open>Lookup\<close>

text \<open>
  The probe loop over the exact-match table, as \<^verbatim>\<open>symspell_lookup\<close>,
  \<^verbatim>\<open>symspell_get_probability\<close> and \<^verbatim>\<open>symspell_get_iwf\<close> each run it: the position of
  the hash, or \<open>None\<close> when a slot with hash 0 comes first or no slot is left.
\<close>

function exact_find :: "exact_match_table \<Rightarrow> u64 \<Rightarrow> nat \<Rightarrow> nat \<Rightarrow> nat option" where
  "exact_find t h idx probe =
     (if probe < exact_table_size t
      then (let pos = (idx + probe) mod exact_table_size t
            in if hashes t pos = 0 then None
               else if hashes t pos = h then Some pos
               else exact_find t h idx (probe + 1))
      else None)"
  by pat_completeness auto
termination
  by (relation "measure (\<lambda>(t, h, idx, probe). exact_table_size t - probe)") auto

declare exact_find.simps [simp del]

definition exact_lookup :: "exact_match_table \<Rightarrow> u64 \<Rightarrow> nat option" where
  "exact_lookup t h = exact_find t h (unat h mod exact_table_size t) 0"

definition symspell_get_probability :: "symspell_dict \<Rightarrow> u64 \<Rightarrow> cfloat" where
  "symspell_get_probability dict word_hash =
     (case exact_lookup (exact_table dict) word_hash of
        None \<Rightarrow> Finite 0
      | Some pos \<Rightarrow> probabilities (exact_table dict) pos)"

definition symspell_get_iwf :: "symspell_dict \<Rightarrow> string \<Rightarrow> cfloat" where
  "symspell_get_iwf dict word =
     (case exact_lookup (exact_table dict) (xxh3 word) of
        None \<Rightarrow> Finite 0
      | Some pos \<Rightarrow> iwf (exact_table dict) pos)"

definition symspell_get_stats :: "symspell_dict \<Rightarrow> u64 \<times> u64" where
  "symspell_get_stats dict = (word_count dict, entry_count dict)"

text \<open>The probe loop of the slow path over the delete table, for one delete variant.\<close>

function delete_find :: "symspell_dict \<Rightarrow> string \<Rightarrow> u64 \<Rightarrow> nat \<Rightarrow> delete_entry option" where
  "delete_find dict del hash probe =
     (if probe < table_size dict
      then (case table dict (delete_slot dict hash probe) of
              None \<Rightarrow> None
            | Some entry \<Rightarrow>
                if delete_str entry = del then Some entry
                else delete_find dict del hash (probe + 1))
      else None)"
  by pat_completeness auto
termination
  by (relation "measure (\<lambda>(dict, del, hash, probe). table_size dict - probe)") auto

declare delete_find.simps [simp del]

text \<open>
  A candidate is a slot of the candidate buffer: the fields \<^verbatim>\<open>probability\<close> and \<^verbatim>\<open>iwf\<close>
  are not written before the best candidate is chosen.
\<close>

record candidate =
  c_term :: string
  c_frequency :: u64
  c_distance :: int

text \<open>The body of the loop over \<^verbatim>\<open>entry->words[j]\<close>.\<close>

definition collect_word :: "string \<Rightarrow> int \<Rightarrow> candidate list \<Rightarrow> string \<times> u64 \<Rightarrow> candidate list" where
  "collect_word query max_dist cands word_freq =
     (if length cands < MAX_CANDIDATES_PER_LOOKUP
      then (let d = edit_distance query (fst word_freq) max_dist
            in if d \<le> max_dist \<and> fst word_freq \<notin> set (map c_term cands)
               then cands @ [\<lparr>c_term = take (SYMSPELL_MAX_TERM_LENGTH - 1) (fst word_freq),
                              c_frequency = snd word_freq, c_distance = d\<rparr>]
               else cands)
      else cands)"

text \<open>The body of the loop over the delete variants of the query.\<close>

definition collect_delete :: "symspell_dict \<Rightarrow> string \<Rightarrow> int \<Rightarrow> candidate list \<Rightarrow> string \<Rightarrow> candidate list" where
  "collect_delete dict query max_dist cands del =
     (case delete_find dict del (xxh3 del) 0 of
        None \<Rightarrow> cands
      | Some entry \<Rightarrow>
          foldl (collect_word query max_dist) cands (zip (words entry) (word_frequencies entry)))"

text \<open>The single pass that keeps the best candidate (the build without \<^verbatim>\<open>DO_SORT\<close>).\<close>

definition better :: "candidate \<Rightarrow> candidate \<Rightarrow> candidate" where
  "better best c =
     (if c_distance c < c_distance best then c
      else if c_distance c = c_distance best \<and> c_frequency c > c_frequency best then c
      else best)"

definition slow_path :: "symspell_dict \<Rightarrow> string \<Rightarrow> int \<Rightarrow> symspell_suggestion list" where
  "slow_path dict query max_dist =
     (let dels = generate_all_deletes_reuse query max_dist (prefix_length dict)
                   (delete_buffer_capacity dict);
          cands = foldl (collect_delete dict query max_dist) [] dels
      in case cands of
           [] \<Rightarrow> []
         | c # cs \<Rightarrow>
            (let best = foldl better c cs;
                 probability = symspell_get_probability dict (xxh3 (c_term best))
             in [\<lparr>s_term = c_term best, s_distance = c_distance best,
                   s_frequency = c_frequency best, s_probability = probability,
                   s_iwf = calculate_iwf probability\<rparr>]))"

text \<open>
  The edit distance the slow path runs with: the smaller of the requested and the
  configured one, and 1 for a query of at most four bytes.
\<close>

definition effective_distance :: "symspell_dict \<Rightarrow> string \<Rightarrow> int \<Rightarrow> int" where
  "effective_distance dict query max_edit_distance_lookup =
     (let d = (if max_edit_distance_lookup < max_edit_distance dict
               then max_edit_distance_lookup else max_edit_distance dict)
      in if length query \<le> 4 then 1 else d)"

text \<open>The query buffer: 127 bytes of the term at most, in lower case.\<close>

definition lookup_query :: "string \<Rightarrow> string" where
  "lookup_query t = str_tolower (take (SYMSPELL_MAX_TERM_LENGTH - 1) t)"

text \<open>
  \<^verbatim>\<open>symspell_lookup\<close>, for a dictionary, a term and an output array that are not
  null. The result is the suggestions written, so the returned count is its length.
\<close>

definition symspell_lookup :: "symspell_dict \<Rightarrow> string \<Rightarrow> int \<Rightarrow> int \<Rightarrow> symspell_suggestion list" where
  "symspell_lookup dict trm max_edit_distance_lookup max_suggestions =
     (if max_suggestions \<le> 0 then []
      else
        (let query = lookup_query trm
         in case exact_lookup (exact_table dict) (xxh3 query) of
              Some pos \<Rightarrow>
                [\<lparr>s_term = take (SYMSPELL_MAX_TERM_LENGTH - 1) query, s_distance = 0,
                  s_frequency = frequencies (exact_table dict) pos,
                  s_probability = probabilities (exact_table dict) pos,
                  s_iwf = iwf (exact_table dict) pos\<rparr>]
            | None \<Rightarrow>
                slow_path dict query (effective_distance dict query max_edit_distance_lookup)))"

section \<open>Inputs used in the examples\<close>

definition every_resource :: "resource \<Rightarrow> bool" where
  "every_resource r = True"

text \<open>The dictionary \<^verbatim>\<open>symspell_create(D, P)\<close> returns when every allocation succeeds.\<close>

definition created :: "int \<Rightarrow> int \<Rightarrow> symspell_dict" where
  "created D P = the (symspell_create every_resource D P)"

text \<open>
  What a call on the delete index leaves alone: the configuration, the exact-match
  table and the word count.
\<close>

definition same_outside_index :: "symspell_dict \<Rightarrow> symspell_dict \<Rightarrow> bool" where
  "same_outside_index d d' =
     (table_size d' = table_size d \<and> max_edit_distance d' = max_edit_distance d \<and>
      prefix_length d' = prefix_length d \<and> delete_buffer_capacity d' = delete_buffer_capacity d \<and>
      exact_table d' = exact_table d \<and> word_count d' = word_count d)"

text \<open>
  A line is admitted when it is not empty after the cut at the line end and has a field
  at both column indices; these are the lines the loop does not \<^verbatim>\<open>continue\<close> past.
\<close>

definition admitted :: "nat \<Rightarrow> nat \<Rightarrow> string \<Rightarrow> bool" where
  "admitted term_index count_index buf =
     (chomp buf \<noteq> [] \<and> term_index < length (line_parts (chomp buf)) \<and>
      count_index < length (line_parts (chomp buf)))"

text \<open>The word and the frequency an admitted line is ingested with.\<close>

definition line_word :: "nat \<Rightarrow> string \<Rightarrow> string" where
  "line_word term_index buf = str_tolower (line_parts (chomp buf) ! term_index)"

definition line_freq :: "nat \<Rightarrow> string \<Rightarrow> u64" where
  "line_freq count_index buf =
     (if strtoull (line_parts (chomp buf) ! count_index) = 0 then 1
      else strtoull (line_parts (chomp buf) ! count_index))"

text \<open>A file system that holds one file.\<close>

definition one_file :: "string \<Rightarrow> string \<Rightarrow> string \<Rightarrow> string option" where
  "one_file path content p = (if p = path then Some content else None)"

text \<open>
  The dictionary \<^verbatim>\<open>symspell_create(2, 7)\<close> after the lines \<open>a 1\<close> and \<open>b 5\<close>, before the
  sweep that fills in the probabilities.
\<close>

definition loaded_a1_b5 :: symspell_dict where
  "loaded_a1_b5 =
     \<lparr>table =
        [3712782 \<mapsto> \<lparr>delete_str = ''a'', words = [''a''], word_frequencies = [1],
                       entry_capacity = 4\<rparr>,
         2959123 \<mapsto> \<lparr>delete_str = [], words = [''a'', ''b''], word_frequencies = [1, 5],
                       entry_capacity = 4\<rparr>,
         981537 \<mapsto> \<lparr>delete_str = ''b'', words = [''b''], word_frequencies = [5],
                      entry_capacity = 4\<rparr>],
      exact_table =
        \<lparr>hashes = (\<lambda>i. 0)(11056 := 16629034431890738719, 95538 := 6294355645245719615),
         frequencies = (\<lambda>i. 0)(11056 := 1, 95538 := 5),
         probabilities = \<lambda>i. Finite 0, iwf = \<lambda>i. Finite 0,
         exact_table_size = 524287\<rparr>,
      table_size = 4194301, max_edit_distance = 2, prefix_length = 7,
      word_count = 2, entry_count = 3,
      string_arena = \<lparr>capacity = 134217728, used = 50\<rparr>,
      entry_arena = \<lparr>capacity = 134217728, used = 120\<rparr>,
      delete_buffer_capacity = 10000\<rparr>"

text \<open>The same after the lines \<open>a 1\<close> and \<open>a 2\<close>.\<close>

definition loaded_a1_a2 :: symspell_dict where
  "loaded_a1_a2 =
     \<lparr>table =
        [2959123 \<mapsto> \<lparr>delete_str = [], words = [''a''], word_frequencies = [2],
                       entry_capacity = 4\<rparr>,
         3712782 \<mapsto> \<lparr>delete_str = ''a'', words = [''a''], word_frequencies = [2],
                       entry_capacity = 4\<rparr>],
      exact_table =
        \<lparr>hashes = (\<lambda>i. 0)(11056 := 16629034431890738719),
         frequencies = (\<lambda>i. 0)(11056 := 2),
         probabilities = \<lambda>i. Finite 0, iwf = \<lambda>i. Finite 0,
         exact_table_size = 524287\<rparr>,
      table_size = 4194301, max_edit_distance = 2, prefix_length = 7,
      word_count = 2, entry_count = 2,
      string_arena = \<lparr>capacity = 134217728, used = 26\<rparr>,
      entry_arena = \<lparr>capacity = 134217728, used = 80\<rparr>,
      delete_buffer_capacity = 10000\<rparr>"

text \<open>The same after the single line \<open># Core technical terms\<close>.\<close>

definition loaded_comment :: symspell_dict where
  "loaded_comment =
     \<lparr>table =
        [2959123 \<mapsto> \<lparr>delete_str = [], words = [''#''], word_frequencies = [1],
                       entry_capacity = 4\<rparr>,
         3693896 \<mapsto> \<lparr>delete_str = ''#'', words = [''#''], word_frequencies = [1],
                       entry_capacity = 4\<rparr>],
      exact_table =
        \<lparr>hashes = (\<lambda>i. 0)(331880 := 7674606916920705344),
         frequencies = (\<lambda>i. 0)(331880 := 1),
         probabilities = \<lambda>i. Finite 0, iwf = \<lambda>i. Finite 0,
         exact_table_size = 524287\<rparr>,
      table_size = 4194301, max_edit_distance = 2, prefix_length = 7,
      word_count = 1, entry_count = 2,
      string_arena = \<lparr>capacity = 134217728, used = 26\<rparr>,
      entry_arena = \<lparr>capacity = 134217728, used = 80\<rparr>,
      delete_buffer_capacity = 10000\<rparr>"






text \<open>A dictionary after the sweep of a load whose reference frequency is \<open>m\<close>.\<close>

definition swept :: "symspell_dict \<Rightarrow> u64 \<Rightarrow> symspell_dict" where
  "swept d m = d\<lparr>exact_table := calculate_probabilities (exact_table d) m\<rparr>"

text \<open>The dictionary \<^verbatim>\<open>symspell_create(2, 7)\<close> after the line \<open>abc 1\<close>, before the sweep.\<close>

definition loaded_abc :: symspell_dict where
  "loaded_abc =
     \<lparr>table =
        [3019365 \<mapsto> \<lparr>delete_str = ''abc'', words = [''abc''], word_frequencies = [1],
                       entry_capacity = 4\<rparr>,
         2988564 \<mapsto> \<lparr>delete_str = ''bc'', words = [''abc''], word_frequencies = [1],
                       entry_capacity = 4\<rparr>,
         909311 \<mapsto> \<lparr>delete_str = ''ac'', words = [''abc''], word_frequencies = [1],
                      entry_capacity = 4\<rparr>,
         493066 \<mapsto> \<lparr>delete_str = ''ab'', words = [''abc''], word_frequencies = [1],
                      entry_capacity = 4\<rparr>,
         1841025 \<mapsto> \<lparr>delete_str = ''c'', words = [''abc''], word_frequencies = [1],
                       entry_capacity = 4\<rparr>,
         981537 \<mapsto> \<lparr>delete_str = ''b'', words = [''abc''], word_frequencies = [1],
                      entry_capacity = 4\<rparr>,
         3712782 \<mapsto> \<lparr>delete_str = ''a'', words = [''abc''], word_frequencies = [1],
                       entry_capacity = 4\<rparr>],
      exact_table =
        \<lparr>hashes = (\<lambda>i. 0)(297008 := 8696274497037089104),
         frequencies = (\<lambda>i. 0)(297008 := 1),
         probabilities = \<lambda>i. Finite 0, iwf = \<lambda>i. Finite 0,
         exact_table_size = 524287\<rparr>,
      table_size = 4194301, max_edit_distance = 2, prefix_length = 7,
      word_count = 1, entry_count = 7,
      string_arena = \<lparr>capacity = 134217728, used = 108\<rparr>,
      entry_arena = \<lparr>capacity = 134217728, used = 280\<rparr>,
      delete_buffer_capacity = 10000\<rparr>"


text \<open>
  A file of one line that is longer than the 511 bytes \<^verbatim>\<open>fgets\<close> reads at a time:
  \<open>a 1\<close>, 508 spaces and \<open>b 2\<close>; and the dictionary \<^verbatim>\<open>symspell_create(2, 7)\<close> after
  it, before the sweep.
\<close>

definition wide_text :: string where
  "wide_text = ''a 1'' @ replicate 508 (CHR '' '') @ ''b 2''"

definition wide_line :: string where
  "wide_line = wide_text @ ''\<newline>''"

definition loaded_a1_b2 :: symspell_dict where
  "loaded_a1_b2 =
     \<lparr>table =
        [3712782 \<mapsto> \<lparr>delete_str = ''a'', words = [''a''], word_frequencies = [1],
                       entry_capacity = 4\<rparr>,
         2959123 \<mapsto> \<lparr>delete_str = [], words = [''a'', ''b''], word_frequencies = [1, 2],
                       entry_capacity = 4\<rparr>,
         981537 \<mapsto> \<lparr>delete_str = ''b'', words = [''b''], word_frequencies = [2],
                      entry_capacity = 4\<rparr>],
      exact_table =
        \<lparr>hashes = (\<lambda>i. 0)(11056 := 16629034431890738719, 95538 := 6294355645245719615),
         frequencies = (\<lambda>i. 0)(11056 := 1, 95538 := 2),
         probabilities = \<lambda>i. Finite 0, iwf = \<lambda>i. Finite 0,
         exact_table_size = 524287\<rparr>,
      table_size = 4194301, max_edit_distance = 2, prefix_length = 7,
      word_count = 2, entry_count = 3,
      string_arena = \<lparr>capacity = 134217728, used = 50\<rparr>,
      entry_arena = \<lparr>capacity = 134217728, used = 120\<rparr>,
      delete_buffer_capacity = 10000\<rparr>"

section \<open>The pairs of a load, and what the tables should hold\<close>

text \<open>
  The pairs a load ingests, in the order of the lines, and the frequencies it has seen
  for one word.
\<close>

definition ingested :: "nat \<Rightarrow> nat \<Rightarrow> string list \<Rightarrow> (string \<times> u64) list" where
  "ingested term_index count_index bufs =
     map (\<lambda>buf. (line_word term_index buf, line_freq count_index buf))
       (filter (admitted term_index count_index) bufs)"













section \<open>Delete enumerator: the prefix and the empty string\<close>

lemma delete_step_dels_mono: "set (fst st) \<subseteq> set (fst (delete_step cur d m st i))"
  by (cases st) (auto simp: delete_step_def Let_def)

lemma foldl_delete_step_mono:
  "set (fst st) \<subseteq> set (fst (foldl (delete_step cur d m) st js))"
proof (induction js arbitrary: st)
  case Nil
  then show ?case by simp
next
  case (Cons j js)
  have "set (fst st) \<subseteq> set (fst (delete_step cur d m st j))"
    by (rule delete_step_dels_mono)
  also have "\<dots> \<subseteq> set (fst (foldl (delete_step cur d m) (delete_step cur d m st j) js))"
    by (rule Cons.IH)
  finally show ?case by simp
qed

lemma delete_steps_dels_mono: "set (fst st) \<subseteq> set (fst (delete_steps cur d m st))"
  by (simp add: delete_steps_def foldl_delete_step_mono)

lemma deletes_loop_mono: "set (fst st) \<subseteq> set (deletes_loop D m st)"
proof (induction D m st rule: deletes_loop.induct)
  case (1 D m dels qe)
  then show ?case by simp
next
  case (2 D m dels cur distance queue qe)
  show ?case
  proof (cases "length dels < m")
    case False
    then show ?thesis by simp
  next
    case True
    show ?thesis
    proof (cases "distance \<ge> D \<or> length cur \<le> 1")
      case c: True
      with True 2(1) show ?thesis by auto
    next
      case c: False
      have "set dels \<subseteq> set (fst (delete_steps cur distance m (dels, queue, qe)))"
        using delete_steps_dels_mono [of "(dels, queue, qe)"] by simp
      also have "\<dots> \<subseteq> set (deletes_loop D m (delete_steps cur distance m (dels, queue, qe)))"
        using 2(2) True c by simp
      finally show ?thesis using True c by simp
    qed
  qed
qed

lemma delete_char_at_nonempty: "1 < length cur \<Longrightarrow> [] \<noteq> delete_char_at cur i"
  by (cases cur; cases i) (auto simp: delete_char_at_def)

lemma delete_step_no_empty:
  "[] \<notin> set (fst st) \<Longrightarrow> 1 < length cur \<Longrightarrow> [] \<notin> set (fst (delete_step cur d m st i))"
  by (cases st) (auto simp: delete_step_def Let_def delete_char_at_nonempty)

lemma foldl_delete_step_no_empty:
  "[] \<notin> set (fst st) \<Longrightarrow> 1 < length cur \<Longrightarrow>
   [] \<notin> set (fst (foldl (delete_step cur d m) st js))"
  by (induction js arbitrary: st) (simp_all add: delete_step_no_empty)

lemma deletes_loop_no_empty: "[] \<notin> set (fst st) \<Longrightarrow> [] \<notin> set (deletes_loop D m st)"
proof (induction D m st rule: deletes_loop.induct)
  case (1 D m dels qe)
  then show ?case by simp
next
  case (2 D m dels cur distance queue qe)
  show ?case
  proof (cases "length dels < m")
    case False
    with 2(3) show ?thesis by simp
  next
    case True
    show ?thesis
    proof (cases "distance \<ge> D \<or> length cur \<le> 1")
      case c: True
      with True 2(1,3) show ?thesis by auto
    next
      case c: False
      then have "[] \<notin> set (fst (delete_steps cur distance m (dels, queue, qe)))"
        using 2(3) by (simp add: delete_steps_def foldl_delete_step_no_empty)
      with 2(2) True c show ?thesis by simp
    qed
  qed
qed

lemma delete_prefix_cut:
  "delete_prefix word P =
     take 127 (if 0 \<le> P \<and> P < int (length word) then take (nat P) word else word)"
  by (auto simp: delete_prefix_def snprintf_prec_def SYMSPELL_MAX_TERM_LENGTH_def min_def)

lemma deletes_of_empty_word: "generate_all_deletes_reuse [] D P m = []"
  by (simp add: generate_all_deletes_reuse_def)

text \<open>
  C2, as stated: the set of delete variants always contains the prefix and contains the
  empty string exactly when \<open>P \<le> D\<close>. For the one-byte word \<open>a\<close> with \<open>D = 1\<close> and
  \<open>P = 7\<close> the empty string is produced although \<open>P > D\<close>: the test is on the length
  of the prefix, not on \<open>P\<close>.
\<close>

theorem short_word_emits_empty_string:
  "[] \<in> set (generate_all_deletes_reuse ''a'' 1 7 10000) \<and> \<not> ((7::int) \<le> 1)"
  by (simp add: generate_all_deletes_reuse_def delete_prefix_def snprintf_prec_def
      SYMSPELL_MAX_TERM_LENGTH_def Let_def)

text \<open>
  C2, amended: for the empty word the enumerator produces nothing. For every non-empty
  word and an output buffer of at least two slots, the delete variants contain the
  prefix, and they contain the empty string exactly when the length of the prefix is
  at most \<open>D\<close> (or the prefix is itself empty). The prefix is the word cut to its first
  \<open>P\<close> bytes when \<open>0 \<le> P < |word|\<close> and the whole word otherwise, a negative \<open>P\<close>
  included; in both cases no more than 127 bytes of it.
\<close>

theorem deletes_contain_prefix:
  assumes "2 \<le> max_deletes"
  shows "(word = [] \<longrightarrow> generate_all_deletes_reuse word D P max_deletes = []) \<and>
         (word \<noteq> [] \<longrightarrow>
            delete_prefix word P \<in> set (generate_all_deletes_reuse word D P max_deletes) \<and>
            ([] \<in> set (generate_all_deletes_reuse word D P max_deletes) \<longleftrightarrow>
               int (length (delete_prefix word P)) \<le> D \<or> delete_prefix word P = [])) \<and>
         delete_prefix word P =
           take 127 (if 0 \<le> P \<and> P < int (length word) then take (nat P) word else word)"
proof -
  let ?p = "delete_prefix word P"
  let ?da = "(if int (length ?p) \<le> D \<and> 0 < max_deletes then [[]] else []) :: string list"
  let ?db = "if length ?da < max_deletes \<and> ?p \<notin> set ?da then ?da @ [?p] else ?da"
  have gen: "generate_all_deletes_reuse word D P max_deletes = deletes_loop D max_deletes (?db, [(?p, 0)], 1)"
    if "word \<noteq> []"
    using that by (simp add: generate_all_deletes_reuse_def Let_def)
  have in1: "?p \<in> set ?db" using assms by auto
  have "set (fst (?db, [(?p, 0::int)], 1::nat)) \<subseteq> set (deletes_loop D max_deletes (?db, [(?p, 0)], 1))"
    by (rule deletes_loop_mono)
  then have sub: "set ?db \<subseteq> set (generate_all_deletes_reuse word D P max_deletes)"
    if "word \<noteq> []"
    unfolding gen [OF that] fst_conv .
  have a: "?p \<in> set (generate_all_deletes_reuse word D P max_deletes)" if "word \<noteq> []"
    using in1 sub [OF that] by blast
  have b: "[] \<in> set (generate_all_deletes_reuse word D P max_deletes)"
    if "word \<noteq> []" and c: "int (length ?p) \<le> D \<or> ?p = []"
  proof -
    have "[] \<in> set ?db" using c assms by auto
    then show ?thesis using sub [OF that(1)] by blast
  qed
  have c: "[] \<notin> set (generate_all_deletes_reuse word D P max_deletes)"
    if "word \<noteq> []" and n: "\<not> (int (length ?p) \<le> D \<or> ?p = [])"
  proof -
    have "[] \<notin> set (fst (?db, [(?p, 0::int)], 1::nat))" using n by auto
    then have "[] \<notin> set (deletes_loop D max_deletes (?db, [(?p, 0)], 1))"
      by (rule deletes_loop_no_empty)
    then show ?thesis unfolding gen [OF that(1)] .
  qed
  show ?thesis using a b c deletes_of_empty_word [of D P max_deletes] delete_prefix_cut [of word P]
    by blast
qed

theorem deletes_contain_prefix_witness:
  "(2::nat) \<le> 10000 \<and>
   generate_all_deletes_reuse [] 2 3 10000 = [] \<and>
   ''hel'' \<in> set (generate_all_deletes_reuse ''hello'' 2 3 10000) \<and>
   [] \<notin> set (generate_all_deletes_reuse ''hello'' 2 3 10000) \<and>
   [] \<in> set (generate_all_deletes_reuse ''hello'' 3 3 10000) \<and>
   delete_prefix ''hello'' 3 = ''hel'' \<and>
   delete_prefix ''hello'' (- 1) = ''hello'' \<and>
   ''hello'' \<in> set (generate_all_deletes_reuse ''hello'' 2 (- 1) 10000)"
proof -
  have m: "(2::nat) \<le> 10000" by simp
  have p: "delete_prefix ''hello'' 3 = ''hel''" "delete_prefix ''hello'' (- 1) = ''hello''"
    by (simp_all add: delete_prefix_def snprintf_prec_def SYMSPELL_MAX_TERM_LENGTH_def)
  from deletes_contain_prefix [OF m, of "[]" 2 3] deletes_contain_prefix [OF m, of "''hello''" 2 3]
    deletes_contain_prefix [OF m, of "''hello''" 3 3]
    deletes_contain_prefix [OF m, of "''hello''" 2 "- 1"] p
  show ?thesis by simp
qed

section \<open>Creation: which arguments are refused\<close>

text \<open>
  C3, as stated: \<^verbatim>\<open>symspell_create\<close> returns no dictionary whenever
  \<^verbatim>\<open>max_edit_distance\<close> is outside 1..3 and whenever the prefix length is invalid.
  The second half fails: the prefix length is stored as it comes, and a negative one
  is accepted.
\<close>

theorem create_accepts_negative_prefix:
  "map_option prefix_length (symspell_create every_resource 2 (- 1)) = Some (- 1)"
  by (simp add: symspell_create_def every_resource_def SYMSPELL_MAX_EDIT_DISTANCE_def)

text \<open>
  C3, amended: \<^verbatim>\<open>symspell_create\<close> returns no dictionary whenever
  \<^verbatim>\<open>max_edit_distance\<close> is outside 1..3; the prefix length is not validated: with
  \<^verbatim>\<open>max_edit_distance\<close> in 1..3 and every allocation succeeding, a dictionary is
  returned for any prefix length, which it stores unchanged.
\<close>

theorem create_checks_distance_only:
  "(D < 1 \<or> D > 3 \<longrightarrow> symspell_create ok D P = None) \<and>
   (1 \<le> D \<and> D \<le> 3 \<and> (\<forall>r. ok r) \<longrightarrow>
      (\<exists>d. symspell_create ok D P = Some d \<and> prefix_length d = P \<and> max_edit_distance d = D))"
  by (simp add: symspell_create_def SYMSPELL_MAX_EDIT_DISTANCE_def)

theorem create_checks_distance_only_witness:
  "symspell_create every_resource 0 7 = None \<and>
   symspell_create every_resource 4 7 = None \<and>
   map_option prefix_length (symspell_create every_resource 3 0) = Some 0"
  using create_checks_distance_only [of 0 every_resource 7]
        create_checks_distance_only [of 4 every_resource 7]
        create_checks_distance_only [of 3 every_resource 0]
  by (auto simp: every_resource_def)

section \<open>What loading changes, and how it can end\<close>

lemma arena_alloc_exit: "arena_alloc a n = Inl e \<Longrightarrow> e = Exit 1"
  by (auto simp: arena_alloc_def Let_def split: if_splits)

lemma arena_strdup_exit: "arena_strdup a s = Inl e \<Longrightarrow> e = Exit 1"
  by (auto simp: arena_strdup_def split: sum.splits dest: arena_alloc_exit)


lemma add_to_entry_exit: "add_to_entry d e w f = Inl x \<Longrightarrow> x = Exit 1"
  by (auto simp: add_to_entry_def Let_def split: option.splits sum.splits dest: arena_strdup_exit)

lemma add_to_entry_frame:
  "add_to_entry d e w f = Inr (ok, d', e') \<Longrightarrow>
   ok \<and> same_outside_index d d' \<and> table d' = table d \<and> entry_count d' = entry_count d \<and>
   delete_str e' = delete_str e"
  by (auto simp: add_to_entry_def Let_def same_outside_index_def split: option.splits sum.splits if_splits)

lemma add_delete_probe_exit: "add_delete_probe d del w f h i = Inl x \<Longrightarrow> x = Exit 1"
proof (induction d del w f h i rule: add_delete_probe.induct)
  case (1 dict del word freq hash i)
  from "1.prems" show ?case
    apply (subst (asm) add_delete_probe.simps)
    apply (auto simp: Let_def arena_calloc_def split: if_splits option.splits sum.splits prod.splits
        dest: arena_alloc_exit arena_strdup_exit add_to_entry_exit "1.IH")
    done
qed

lemma add_delete_probe_frame:
  "add_delete_probe d del w f h i = Inr (ok, d') \<Longrightarrow> same_outside_index d d'"
proof (induction d del w f h i rule: add_delete_probe.induct)
  case (1 dict del word freq hash i)
  from "1.prems" show ?case
    apply (subst (asm) add_delete_probe.simps)
    apply (auto simp: Let_def split: if_splits option.splits sum.splits prod.splits
        dest!: add_to_entry_frame "1.IH")
      apply (auto simp: same_outside_index_def)
    done
qed

lemma same_outside_index_refl: "same_outside_index d d"
  by (simp add: same_outside_index_def)

lemma same_outside_index_trans:
  "same_outside_index d d' \<Longrightarrow> same_outside_index d' d'' \<Longrightarrow> same_outside_index d d''"
  by (simp add: same_outside_index_def)

lemma add_deletes_exit: "add_deletes d dels w f = Inl x \<Longrightarrow> x = Exit 1"
  by (induction dels arbitrary: d)
     (auto simp: add_delete_def split: sum.splits dest: add_delete_probe_exit)

lemma add_deletes_frame: "add_deletes d dels w f = Inr d' \<Longrightarrow> same_outside_index d d'"
proof (induction dels arbitrary: d)
  case Nil
  then show ?case by (simp add: same_outside_index_refl)
next
  case (Cons del dels)
  then show ?case
    by (auto simp: add_delete_def split: sum.splits
        dest!: add_delete_probe_frame intro: same_outside_index_trans)
qed

lemma generate_deletes_exit: "generate_deletes d w f = Inl x \<Longrightarrow> x = Exit 1"
  by (auto simp: generate_deletes_def split: sum.splits dest: add_deletes_exit)

lemma generate_deletes_frame:
  "generate_deletes d w f = Inr (ok, d') \<Longrightarrow> ok \<and> same_outside_index d d'"
  by (auto simp: generate_deletes_def split: sum.splits dest: add_deletes_frame)

lemma exact_insert_size:
  "exact_insert t h f idx p = (ok, t') \<Longrightarrow> exact_table_size t' = exact_table_size t"
proof (induction t h f idx p rule: exact_insert.induct)
  case (1 t word_hash freq idx probe)
  from "1.prems" show ?case
    apply (subst (asm) exact_insert.simps)
    apply (auto simp: Let_def split: if_splits dest: "1.IH")
    done
qed

lemma add_exact_match_frame:
  "add_exact_match d w f = (ok, d') \<Longrightarrow>
   table d' = table d \<and> table_size d' = table_size d \<and>
   max_edit_distance d' = max_edit_distance d \<and> prefix_length d' = prefix_length d \<and>
   word_count d' = word_count d \<and> entry_count d' = entry_count d \<and>
   string_arena d' = string_arena d \<and> entry_arena d' = entry_arena d \<and>
   delete_buffer_capacity d' = delete_buffer_capacity d \<and>
   exact_table_size (exact_table d') = exact_table_size (exact_table d)"
  by (auto simp: add_exact_match_def Let_def split: prod.splits dest: exact_insert_size)

lemma load_line_exit: "load_line ti ci st buf = Inl x \<Longrightarrow> x = Exit 1"
  by (cases st) (auto simp: load_line_def Let_def split: if_splits sum.splits dest: generate_deletes_exit)

lemma load_line_skip: "\<not> admitted ti ci buf \<Longrightarrow> load_line ti ci st buf = Inr st"
  by (cases st) (auto simp: load_line_def admitted_def Let_def)

lemma load_line_admitted:
  assumes "admitted ti ci buf"
  shows "load_line ti ci (d, m) buf =
           (case generate_deletes (snd (add_exact_match d (line_word ti buf) (line_freq ci buf)))
                   (line_word ti buf) (line_freq ci buf) of
              Inl e \<Rightarrow> Inl e
            | Inr (ok, d2) \<Rightarrow>
                Inr (d2\<lparr>word_count := word_count d2 + 1\<rparr>,
                     if m = 0 then line_freq ci buf else m))"
  using assms
  by (auto simp: load_line_def admitted_def line_word_def line_freq_def Let_def not_le
      split: sum.splits)

lemma load_lines_exit: "load_lines ti ci st bufs = Inl x \<Longrightarrow> x = Exit 1"
  by (induction bufs arbitrary: st) (auto split: sum.splits dest: load_line_exit)


lemma load_line_word_count:
  "load_line ti ci (d, m) buf = Inr (d', m') \<Longrightarrow>
   word_count d' = word_count d + (if admitted ti ci buf then 1 else 0)"
proof (cases "admitted ti ci buf")
  case False
  assume "load_line ti ci (d, m) buf = Inr (d', m')"
  with False show ?thesis by (simp add: load_line_skip)
next
  case True
  assume l: "load_line ti ci (d, m) buf = Inr (d', m')"
  obtain ok d1 where a: "add_exact_match d (line_word ti buf) (line_freq ci buf) = (ok, d1)"
    by (cases "add_exact_match d (line_word ti buf) (line_freq ci buf)")
  from add_exact_match_frame [OF a] have w1: "word_count d1 = word_count d"
    by simp
  from l True a obtain ok2 d2 where
    g: "generate_deletes d1 (line_word ti buf) (line_freq ci buf) = Inr (ok2, d2)"
    and d': "d' = d2\<lparr>word_count := word_count d2 + 1\<rparr>"
    by (auto simp: load_line_admitted split: sum.splits)
  from generate_deletes_frame [OF g] have "word_count d2 = word_count d1"
    by (simp add: same_outside_index_def)
  with w1 d' True show ?thesis by simp
qed

lemma load_lines_word_count:
  "load_lines ti ci (d, m) bufs = Inr (d', m') \<Longrightarrow>
   word_count d' = word_count d + of_nat (length (filter (admitted ti ci) bufs))"
proof (induction bufs arbitrary: d m)
  case Nil
  then show ?case by simp
next
  case (Cons buf bufs)
  from Cons.prems obtain d1 m1 where
    s: "load_line ti ci (d, m) buf = Inr (d1, m1)"
    and r: "load_lines ti ci (d1, m1) bufs = Inr (d', m')"
    by (auto split: sum.splits)
  from load_line_word_count [OF s] Cons.IH [OF r] show ?case by simp
qed

section \<open>Keeping the greater frequency\<close>







section \<open>Probing the exact-match table\<close>

lemma exact_find_SomeD:
  "exact_find t h idx p = Some pos \<Longrightarrow>
   pos < exact_table_size t \<and> hashes t pos = h \<and> h \<noteq> 0"
proof (induction t h idx p rule: exact_find.induct)
  case (1 t h idx probe)
  from "1.prems" show ?case
    apply (subst (asm) exact_find.simps)
    apply (auto simp: Let_def split: if_splits dest: "1.IH")
    done
qed

lemma exact_find_cong:
  "hashes t' = hashes t \<Longrightarrow> exact_table_size t' = exact_table_size t \<Longrightarrow>
   exact_find t' h idx p = exact_find t h idx p"
proof (induction t h idx p rule: exact_find.induct)
  case (1 t h idx probe)
  show ?case
    apply (subst exact_find.simps)
    apply (subst (2) exact_find.simps)
    using 1 by (auto simp: Let_def)
qed

lemma exact_lookup_sweep:
  "exact_lookup (calculate_probabilities t m) h = exact_lookup t h"
proof -
  have "exact_find (calculate_probabilities t m) h idx 0 = exact_find t h idx 0" for idx
    by (rule exact_find_cong) (simp_all add: calculate_probabilities_def)
  then show ?thesis by (simp add: exact_lookup_def calculate_probabilities_def)
qed

lemma exact_lookup_SomeD:
  "exact_lookup t h = Some pos \<Longrightarrow> pos < exact_table_size t \<and> hashes t pos = h \<and> h \<noteq> 0"
  unfolding exact_lookup_def by (rule exact_find_SomeD)

lemma sweep_at_found:
  assumes "exact_lookup t h = Some pos"
  shows "probabilities (calculate_probabilities t m) pos = float_div (frequencies t pos) m \<and>
   iwf (calculate_probabilities t m) pos = calculate_iwf (float_div (frequencies t pos) m) \<and>
   frequencies (calculate_probabilities t m) pos = frequencies t pos"
proof -
  from exact_lookup_SomeD [OF assms] have "pos < exact_table_size t" "hashes t pos \<noteq> 0"
    by simp_all
  then show ?thesis by (simp add: calculate_probabilities_def)
qed

lemmas float_eval =
  float_div_def float_quot_def float_of_u64_def round_even_def bit_length.simps Let_def

lemma bit_length_pos: "0 < n \<Longrightarrow> 0 < bit_length n"
  by (subst bit_length.simps) simp

lemma bit_length_lower: "0 < n \<Longrightarrow> 2 ^ (bit_length n - 1) \<le> n"
proof (induction n rule: bit_length.induct)
  case (1 n)
  show ?case
  proof (cases "n div 2 = 0")
    case True
    with "1.prems" have "n = 1" by (cases n) auto
    then show ?thesis by (simp add: bit_length.simps)
  next
    case False
    then have p: "0 < n div 2" by simp
    from "1.prems" have "n \<noteq> 0" by simp
    from "1.IH" [OF this p] have "2 ^ (bit_length (n div 2) - 1) \<le> n div 2" .
    moreover have "bit_length n = Suc (bit_length (n div 2))"
      using \<open>n \<noteq> 0\<close> by (subst bit_length.simps) simp
    moreover from bit_length_pos [OF p] have "Suc (bit_length (n div 2) - 1) = bit_length (n div 2)"
      by simp
    ultimately have "2 ^ (bit_length n - 1) \<le> 2 * (n div 2)"
      by (metis diff_Suc_1 mult_le_mono2 power_Suc)
    then show ?thesis by linarith
  qed
qed

lemma float_of_u64_pos: "a \<noteq> 0 \<Longrightarrow> 0 < float_of_u64 a"
proof -
  assume "a \<noteq> 0"
  then have "unat a \<noteq> 0" by (simp add: unsigned_eq_0_iff)
  then have n: "0 < unat a" by simp
  let ?n = "unat a" and ?l = "bit_length (unat a)"
  show ?thesis
  proof (cases "?l \<le> 24")
    case True
    with n show ?thesis by (simp add: float_of_u64_def Let_def)
  next
    case False
    from bit_length_lower [OF n] have "2 ^ (?l - 1) \<le> ?n" .
    moreover have "(2::nat) ^ (?l - 24) \<le> 2 ^ (?l - 1)" by (rule power_increasing) simp_all
    ultimately have "2 ^ (?l - 24) \<le> ?n" by linarith
    then have "0 < ?n div 2 ^ (?l - 24)" by (simp add: div_greater_zero_iff)
    then have "0 < round_even ?n (2 ^ (?l - 24))" by (auto simp: round_even_def Let_def)
    with False show ?thesis by (simp add: float_of_u64_def Let_def)
  qed
qed

lemma float_quot_self: "0 < x \<Longrightarrow> float_quot x x = 1"
  by (simp add: float_quot_def round_even_def Let_def)

lemma float_div_self: "m \<noteq> 0 \<Longrightarrow> calculate_iwf (float_div m m) = Finite 0"
  by (simp add: float_div_def float_quot_self float_of_u64_pos calculate_iwf_def)

section \<open>Inserting into the exact-match table\<close>







section \<open>Lookup: the short-word rule\<close>

lemma collect_word_distance:
  "\<forall>c \<in> set cands. c_distance c \<le> m \<Longrightarrow>
   \<forall>c \<in> set (collect_word q m cands pair). c_distance c \<le> m"
  by (auto simp: collect_word_def Let_def)

lemma foldl_collect_word_distance:
  "\<forall>c \<in> set cands. c_distance c \<le> m \<Longrightarrow>
   \<forall>c \<in> set (foldl (collect_word q m) cands pairs). c_distance c \<le> m"
proof (induction pairs arbitrary: cands)
  case Nil
  then show ?case by simp
next
  case (Cons pair pairs)
  from Cons.prems have "\<forall>c \<in> set (collect_word q m cands pair). c_distance c \<le> m"
    by (rule collect_word_distance)
  then show ?case using Cons.IH by simp
qed

lemma collect_delete_distance:
  "\<forall>c \<in> set cands. c_distance c \<le> m \<Longrightarrow>
   \<forall>c \<in> set (collect_delete dict q m cands del). c_distance c \<le> m"
  unfolding collect_delete_def
  by (cases "delete_find dict del (xxh3 del) 0") (simp_all add: foldl_collect_word_distance)

lemma foldl_collect_delete_distance:
  "\<forall>c \<in> set cands. c_distance c \<le> m \<Longrightarrow>
   \<forall>c \<in> set (foldl (collect_delete dict q m) cands dels). c_distance c \<le> m"
proof (induction dels arbitrary: cands)
  case Nil
  then show ?case by simp
next
  case (Cons del dels)
  from Cons.prems have "\<forall>c \<in> set (collect_delete dict q m cands del). c_distance c \<le> m"
    by (rule collect_delete_distance)
  then show ?case using Cons.IH by simp
qed

lemma foldl_better_in: "foldl better c cs \<in> set (c # cs)"
proof (induction cs arbitrary: c)
  case Nil
  then show ?case by simp
next
  case (Cons x xs)
  have "better c x = c \<or> better c x = x" by (simp add: better_def)
  then show ?case using Cons.IH [of "better c x"] by auto
qed

lemma slow_path_distance: "\<forall>s \<in> set (slow_path dict q m). s_distance s \<le> m"
proof -
  let ?cands = "foldl (collect_delete dict q m) []
     (generate_all_deletes_reuse q m (prefix_length dict) (delete_buffer_capacity dict))"
  have all: "\<forall>c \<in> set ?cands. c_distance c \<le> m"
    by (rule foldl_collect_delete_distance) simp
  show ?thesis
  proof (cases ?cands)
    case Nil
    then show ?thesis by (simp add: slow_path_def Let_def)
  next
    case (Cons c cs)
    have "foldl better c cs \<in> set ?cands" unfolding Cons by (rule foldl_better_in)
    with all have "c_distance (foldl better c cs) \<le> m" by blast
    with Cons show ?thesis by (simp add: slow_path_def Let_def)
  qed
qed

section \<open>What a load leaves in the exact-match table\<close>













lemma c_tolower_idem: "c_tolower (c_tolower c) = c_tolower c"
  by (simp add: c_tolower_def)

lemma str_tolower_idem: "str_tolower (str_tolower s) = str_tolower s"
  by (simp add: str_tolower_def c_tolower_idem)









section \<open>Evaluating the model on small files\<close>

lemma xxh3_empty: "xxh3 '''' = 3244421341483603138" by code_simp
lemma xxh3_a: "xxh3 ''a'' = 16629034431890738719" by code_simp
lemma xxh3_b: "xxh3 ''b'' = 6294355645245719615" by code_simp
lemma xxh3_hash_sign: "xxh3 ''#'' = 7674606916920705344" by code_simp

lemmas deletes_eval =
  generate_all_deletes_reuse_def delete_prefix_def snprintf_prec_def
  SYMSPELL_MAX_TERM_LENGTH_def Let_def

lemma deletes_a: "generate_all_deletes_reuse ''a'' 2 7 10000 = ['''', ''a'']"
  by (simp add: deletes_eval)

lemma deletes_b: "generate_all_deletes_reuse ''b'' 2 7 10000 = ['''', ''b'']"
  by (simp add: deletes_eval)

lemma deletes_hash_sign: "generate_all_deletes_reuse ''#'' 2 7 10000 = ['''', ''#'']"
  by (simp add: deletes_eval)

lemmas parse_eval =
  chomp_def line_parts_def MAX_PARTS_PER_LINE_def strtoull_def c_isspace_def c_isdigit_def
  str_tolower_def c_tolower_def Let_def

lemma parse_a1:
  "chomp ''a 1\<newline>'' = ''a 1''" "line_parts ''a 1'' = [''a'', ''1'']" "strtoull ''1'' = 1"
  "str_tolower ''a'' = ''a''"
  by (simp_all add: parse_eval)

lemma parse_a2:
  "chomp ''a 2\<newline>'' = ''a 2''" "line_parts ''a 2'' = [''a'', ''2'']" "strtoull ''2'' = 2"
  by (simp_all add: parse_eval)

lemma parse_b5:
  "chomp ''b 5\<newline>'' = ''b 5''" "line_parts ''b 5'' = [''b'', ''5'']" "strtoull ''5'' = 5"
  "str_tolower ''b'' = ''b''"
  by (simp_all add: parse_eval)

lemma parse_comment:
  "chomp ''# Core technical terms\<newline>'' = ''# Core technical terms''"
  "line_parts ''# Core technical terms'' = [''#'', ''Core'', ''technical'', ''terms'']"
  "strtoull ''Core'' = 0" "str_tolower ''#'' = ''#''"
  by (simp_all add: parse_eval)

lemma chunks_a1_b5: "file_chunks ''a 1\<newline>b 5\<newline>'' = [''a 1\<newline>'', ''b 5\<newline>'']"
  by (simp add: file_chunks.simps MAX_LINE_BUFFER_def)

lemma chunks_a1_a2: "file_chunks ''a 1\<newline>a 2\<newline>'' = [''a 1\<newline>'', ''a 2\<newline>'']"
  by (simp add: file_chunks.simps MAX_LINE_BUFFER_def)

lemma chunks_comment:
  "file_chunks ''# Core technical terms\<newline>'' = [''# Core technical terms\<newline>'']"
  by (simp add: file_chunks.simps MAX_LINE_BUFFER_def)

lemmas load_eval =
  load_line_def created_def every_resource_def symspell_create_def add_delete_def
  xxh3_empty xxh3_a xxh3_b xxh3_hash_sign deletes_a deletes_b deletes_hash_sign
  add_delete_probe.simps delete_slot_def arena_calloc_def arena_alloc_def arena_strdup_def
  SIZE_RANGE_def
  add_to_entry_def generate_deletes_def add_exact_match_def exact_insert.simps
  TABLE_SIZE_D2_def SYMSPELL_MAX_EDIT_DISTANCE_def SIZEOF_DELETE_ENTRY_def
  STRING_ARENA_SIZE_def ENTRY_ARENA_SIZE_def INITIAL_ENTRY_CAPACITY_def
  DELETE_QUEUE_CAPACITY_def EXACT_MATCH_TABLE_SIZE_def Let_def

lemma load_lines_a1_b5:
  "load_lines 0 1 (created 2 7, 0) (file_chunks ''a 1\<newline>b 5\<newline>'') = Inr (loaded_a1_b5, 1)"
  by (simp add: chunks_a1_b5 parse_a1 parse_b5 load_eval loaded_a1_b5_def)

lemma load_lines_a1_a2:
  "load_lines 0 1 (created 2 7, 0) (file_chunks ''a 1\<newline>a 2\<newline>'') = Inr (loaded_a1_a2, 1)"
  by (simp add: chunks_a1_a2 parse_a1 parse_a2 load_eval loaded_a1_a2_def)

lemma load_lines_comment:
  "load_lines 0 1 (created 2 7, 0) (file_chunks ''# Core technical terms\<newline>'') =
     Inr (loaded_comment, 1)"
  by (simp add: chunks_comment parse_comment load_eval loaded_comment_def)

lemma load_a1_b5:
  "symspell_load_dictionary (one_file ''d.txt'' ''a 1\<newline>b 5\<newline>'') (Some (created 2 7))
     (Some ''d.txt'') 0 1 =
   Inr (True, Some (swept loaded_a1_b5 1))"
  by (simp add: symspell_load_dictionary_def one_file_def load_lines_a1_b5 swept_def del: One_nat_def)

lemma load_a1_a2:
  "symspell_load_dictionary (one_file ''d.txt'' ''a 1\<newline>a 2\<newline>'') (Some (created 2 7))
     (Some ''d.txt'') 0 1 =
   Inr (True, Some (swept loaded_a1_a2 1))"
  by (simp add: symspell_load_dictionary_def one_file_def load_lines_a1_a2 swept_def del: One_nat_def)

lemma load_comment:
  "symspell_load_dictionary (one_file ''d.txt'' ''# Core technical terms\<newline>'')
     (Some (created 2 7)) (Some ''d.txt'') 0 1 =
   Inr (True, Some (swept loaded_comment 1))"
  by (simp add: symspell_load_dictionary_def one_file_def load_lines_comment swept_def del: One_nat_def)

lemma xxh3_c: "xxh3 ''c'' = 10106114510314666011" by code_simp

lemmas exact_eval = exact_lookup_def exact_find.simps calculate_probabilities_def

lemma lookup_a1_b5:
  "exact_lookup (exact_table (swept loaded_a1_b5 1)) (xxh3 ''a'') = Some 11056"
  "exact_lookup (exact_table (swept loaded_a1_b5 1)) (xxh3 ''b'') = Some 95538"
  "exact_lookup (exact_table (swept loaded_a1_b5 1)) (xxh3 ''c'') = None"
  by (simp_all add: exact_eval swept_def loaded_a1_b5_def xxh3_a xxh3_b xxh3_c)

lemma lookup_comment:
  "exact_lookup (exact_table (swept loaded_comment 1)) (xxh3 ''#'') = Some 331880"
  by (simp add: exact_eval swept_def loaded_comment_def xxh3_hash_sign)









lemma xxh3_abc: "xxh3 ''abc'' = 8696274497037089104" by code_simp
lemma xxh3_bc: "xxh3 ''bc'' = 2483557330662156479" by code_simp
lemma xxh3_ac: "xxh3 ''ac'' = 14277327301473205514" by code_simp
lemma xxh3_ab: "xxh3 ''ab'' = 12138170336140424028" by code_simp

lemmas delete_steps_eval =
  deletes_eval delete_steps_def delete_step_def delete_char_at_def DELETE_QUEUE_CAPACITY_def

lemma deletes_abc:
  "generate_all_deletes_reuse ''abc'' 2 7 10000 = [''abc'', ''bc'', ''ac'', ''ab'', ''c'', ''b'', ''a'']"
  by (simp add: delete_steps_eval)

lemma parse_abc1:
  "chomp ''abc 1\<newline>'' = ''abc 1''" "line_parts ''abc 1'' = [''abc'', ''1'']"
  "str_tolower ''abc'' = ''abc''"
  by (simp_all add: parse_eval)

lemma chunks_abc1: "file_chunks ''abc 1\<newline>'' = [''abc 1\<newline>'']"
  by (simp add: file_chunks.simps MAX_LINE_BUFFER_def)

lemma load_lines_abc:
  "load_lines 0 1 (created 2 7, 0) (file_chunks ''abc 1\<newline>'') = Inr (loaded_abc, 1)"
  by (simp add: chunks_abc1 parse_abc1 parse_a1 load_eval xxh3_abc xxh3_bc xxh3_ac xxh3_ab xxh3_c
      deletes_abc loaded_abc_def)

lemma load_abc:
  "symspell_load_dictionary (one_file ''d.txt'' ''abc 1\<newline>'') (Some (created 2 7))
     (Some ''d.txt'') 0 1 =
   Inr (True, Some (swept loaded_abc 1))"
  by (simp add: symspell_load_dictionary_def one_file_def load_lines_abc swept_def del: One_nat_def)




lemma fgets_replicate:
  "c \<noteq> CHR 0x0A \<Longrightarrow>
   fgets (n + k) (replicate n c @ rest) = (replicate n c @ fst (fgets k rest), snd (fgets k rest))"
  by (induction n) (simp_all split: prod.splits)

lemma strtok_all_skip_spaces:
  "strtok_all (replicate n (CHR '' '') @ rest) [] = strtok_all rest []"
  by (induction n) simp_all

lemma strtok_all_spaces:
  "strtok_all (replicate n (CHR '' '') @ rest) cur =
     (if n = 0 then strtok_all rest cur
      else if cur = [] then strtok_all rest [] else cur # strtok_all rest [])"
  by (cases n) (simp_all add: strtok_all_skip_spaces)

lemma chunks_wide: "file_chunks wide_line = [''a 1'' @ replicate 508 (CHR '' ''), ''b 2\<newline>'']"
proof -
  have "fgets (508 + 0) (replicate 508 (CHR '' '') @ ''b 2\<newline>'') =
      (replicate 508 (CHR '' ''), ''b 2\<newline>'')"
    by (subst fgets_replicate) simp_all
  then have "fgets 511 wide_line = (''a 1'' @ replicate 508 (CHR '' ''), ''b 2\<newline>'')"
    by (simp add: wide_line_def wide_text_def)
  then show ?thesis
    by (subst file_chunks.simps) (simp add: MAX_LINE_BUFFER_def wide_line_def wide_text_def
        file_chunks.simps [of "''b 2\<newline>''"] file_chunks.simps [of "[]"])
qed

lemma parse_wide:
  "chomp (''a 1'' @ replicate 508 (CHR '' '')) = ''a 1'' @ replicate 508 (CHR '' '')"
  "line_parts (''a 1'' @ replicate 508 (CHR '' '')) = [''a'', ''1'']"
proof -
  show "chomp (''a 1'' @ replicate 508 (CHR '' '')) = ''a 1'' @ replicate 508 (CHR '' '')"
    by (simp add: chomp_def)
  have "strtok_all (replicate 508 (CHR '' '') @ []) ''1'' = [''1'']"
    by (subst strtok_all_spaces) simp
  then show "line_parts (''a 1'' @ replicate 508 (CHR '' '')) = [''a'', ''1'']"
    by (simp add: line_parts_def MAX_PARTS_PER_LINE_def)
qed

lemma parse_b2:
  "chomp ''b 2\<newline>'' = ''b 2''" "line_parts ''b 2'' = [''b'', ''2'']"
  by (simp_all add: parse_eval)

lemma load_line_wide:
  "load_line 0 1 st (''a 1'' @ replicate 508 (CHR '' '')) = load_line 0 1 st ''a 1\<newline>''"
  unfolding load_line_def Let_def parse_wide parse_a1 by simp

lemma load_lines_wide:
  "load_lines 0 1 (created 2 7, 0) (file_chunks wide_line) = Inr (loaded_a1_b2, 1)"
proof -
  have "load_lines 0 1 (created 2 7, 0) (file_chunks wide_line) =
      load_lines 0 1 (created 2 7, 0) [''a 1\<newline>'', ''b 2\<newline>'']"
    by (simp only: chunks_wide load_lines.simps load_line_wide)
  also have "\<dots> = Inr (loaded_a1_b2, 1)"
    by (simp add: parse_a1 parse_a2 parse_b2 parse_b5 load_eval loaded_a1_b2_def)
  finally show ?thesis .
qed

lemma load_wide:
  "symspell_load_dictionary (one_file ''d.txt'' wide_line) (Some (created 2 7)) (Some ''d.txt'') 0 1 =
   Inr (True, Some (swept loaded_a1_b2 1))"
  by (simp add: symspell_load_dictionary_def one_file_def load_lines_wide swept_def del: One_nat_def)

section \<open>The divisor of the probabilities\<close>

text \<open>
  C1 says that after a load the stored probability of a word is its frequency divided
  by the largest frequency admitted. The load keeps in \<^verbatim>\<open>max_freq\<close> the frequency of
  the first admitted line and divides by that. For the file with the lines \<open>a 1\<close> and
  \<open>b 5\<close> the word \<open>b\<close> is stored with frequency 5 and gets the probability 5 / 1 = 5,
  where the claim gives 5 / 5 = 1.
\<close>

theorem probability_divides_by_first_frequency:
  "symspell_load_dictionary (one_file ''d.txt'' ''a 1\<newline>b 5\<newline>'') (Some (created 2 7))
     (Some ''d.txt'') 0 1 = Inr (True, Some (swept loaded_a1_b5 1)) \<and>
   exact_lookup (exact_table (swept loaded_a1_b5 1)) (xxh3 ''b'') = Some 95538 \<and>
   frequencies (exact_table (swept loaded_a1_b5 1)) 95538 = 5 \<and>
   probabilities (exact_table (swept loaded_a1_b5 1)) 95538 = Finite 5 \<and>
   symspell_get_probability (swept loaded_a1_b5 1) (xxh3 ''b'') = Finite 5 \<and>
   Finite 5 \<noteq> float_div 5 (max 1 5)"
proof -
  let ?d = "swept loaded_a1_b5 1"
  have q: "frequencies (exact_table ?d) 95538 = 5"
    by (simp add: swept_def calculate_probabilities_def loaded_a1_b5_def)
  have p: "probabilities (exact_table ?d) 95538 = Finite 5"
    by (simp add: swept_def calculate_probabilities_def loaded_a1_b5_def float_eval)
  have g: "symspell_get_probability ?d (xxh3 ''b'') = Finite 5"
    using lookup_a1_b5(2) p by (simp add: symspell_get_probability_def)
  have n: "Finite 5 \<noteq> float_div 5 (max 1 5)"
    by (simp add: float_eval)
  show ?thesis using load_a1_b5 lookup_a1_b5(2) q p g n by blast
qed

section \<open>Arena exhaustion\<close>

lemma load_exit_or_true:
  assumes "fs path = Some content"
  shows "symspell_load_dictionary fs (Some dict) (Some path) ti ci = Inl (Exit 1) \<or>
         (\<exists>dict'. symspell_load_dictionary fs (Some dict) (Some path) ti ci = Inr (True, Some dict'))"
proof (cases "load_lines ti ci (dict, 0) (file_chunks content)")
  case (Inl e)
  then have "e = Exit 1" by (rule load_lines_exit)
  with Inl assms show ?thesis by (simp add: symspell_load_dictionary_def)
next
  case (Inr st)
  with assms show ?thesis by (cases st) (simp add: symspell_load_dictionary_def)
qed









section \<open>Looking up an admitted word\<close>




section \<open>Short queries run with the distance 1\<close>

text \<open>
  C6: a query of at most four bytes (after the cut to 127 bytes and lowercasing) that
  misses the exact-match table is searched with the edit distance 1, whatever
  distance the caller asks for and whatever the dictionary is configured with: the
  effective distance is 1, the lookup is the slow path run with 1, and no suggestion
  that comes back is farther than 1.
\<close>

theorem short_query_distance_one:
  assumes "0 < max_suggestions"
    and "length (lookup_query t) \<le> 4"
    and "exact_lookup (exact_table dict) (xxh3 (lookup_query t)) = None"
  shows "effective_distance dict (lookup_query t) requested = 1 \<and>
         symspell_lookup dict t requested max_suggestions = slow_path dict (lookup_query t) 1 \<and>
         (\<forall>s \<in> set (symspell_lookup dict t requested max_suggestions). s_distance s \<le> 1)"
proof -
  have e: "effective_distance dict (lookup_query t) requested = 1"
    using assms(2) by (simp add: effective_distance_def)
  have l: "symspell_lookup dict t requested max_suggestions = slow_path dict (lookup_query t) 1"
    using assms(1,3) e by (simp add: symspell_lookup_def Let_def)
  show ?thesis using e l slow_path_distance [of dict "lookup_query t" 1] by simp
qed

lemma deletes_a_1: "generate_all_deletes_reuse ''a'' 1 7 10000 = ['''', ''a'']"
  by (simp add: deletes_eval)

lemma deletes_ab_1: "generate_all_deletes_reuse ''ab'' 1 7 10000 = [''ab'', ''b'', ''a'']"
  by (simp add: delete_steps_eval)

lemma ed_a_abc_1: "edit_distance ''a'' ''abc'' 1 = 2" by code_simp
lemma ed_a_abc_2: "edit_distance ''a'' ''abc'' 2 = 2" by code_simp
lemma ed_ab_abc_1: "edit_distance ''ab'' ''abc'' 1 = 1" by code_simp

lemmas slow_eval =
  slow_path_def collect_delete_def collect_word_def delete_find.simps delete_slot_def better_def
  MAX_CANDIDATES_PER_LOOKUP_def SYMSPELL_MAX_TERM_LENGTH_def symspell_get_probability_def
  exact_eval calculate_iwf_def float_eval swept_def Let_def

lemma slow_abc_a_1: "slow_path (swept loaded_abc 1) ''a'' 1 = []"
  by (simp add: slow_eval loaded_abc_def deletes_a_1 xxh3_empty xxh3_a ed_a_abc_1)

lemma slow_abc_a_2:
  "slow_path (swept loaded_abc 1) ''a'' 2 =
     [\<lparr>s_term = ''abc'', s_distance = 2, s_frequency = 1, s_probability = Finite 1,
       s_iwf = Finite 0\<rparr>]"
  by (simp add: slow_eval loaded_abc_def deletes_a xxh3_empty xxh3_a xxh3_abc ed_a_abc_2)

lemma slow_abc_ab_1:
  "slow_path (swept loaded_abc 1) ''ab'' 1 =
     [\<lparr>s_term = ''abc'', s_distance = 1, s_frequency = 1, s_probability = Finite 1,
       s_iwf = Finite 0\<rparr>]"
  by (simp add: slow_eval loaded_abc_def deletes_ab_1 xxh3_ab xxh3_b xxh3_a xxh3_abc ed_ab_abc_1)

lemma lookup_abc:
  "exact_lookup (exact_table (swept loaded_abc 1)) (xxh3 ''a'') = None"
  "exact_lookup (exact_table (swept loaded_abc 1)) (xxh3 ''ab'') = None"
  by (simp_all add: exact_eval swept_def loaded_abc_def xxh3_a xxh3_ab)

lemma query_a_ab: "lookup_query ''a'' = ''a''" "lookup_query ''ab'' = ''ab''"
  by (simp_all add: lookup_query_def str_tolower_def c_tolower_def SYMSPELL_MAX_TERM_LENGTH_def)

text \<open>
  The dictionary holds the one word \<open>abc\<close> and is configured with the distance 2. The
  query \<open>a\<close> is two insertions away from it: asked with the distance 2, the lookup runs
  the slow path with 1 and returns nothing, where the slow path run with 2 returns
  \<open>abc\<close>. The query \<open>ab\<close>, one insertion away, gets \<open>abc\<close> at the distance 1.
\<close>

theorem short_query_distance_one_witness:
  "symspell_load_dictionary (one_file ''d.txt'' ''abc 1\<newline>'') (Some (created 2 7))
     (Some ''d.txt'') 0 1 = Inr (True, Some (swept loaded_abc 1)) \<and>
   (0::int) < 5 \<and> length (lookup_query ''a'') \<le> 4 \<and>
   exact_lookup (exact_table (swept loaded_abc 1)) (xxh3 (lookup_query ''a'')) = None \<and>
   effective_distance (swept loaded_abc 1) (lookup_query ''a'') 2 = 1 \<and>
   symspell_lookup (swept loaded_abc 1) ''a'' 2 5 = slow_path (swept loaded_abc 1) ''a'' 1 \<and>
   symspell_lookup (swept loaded_abc 1) ''a'' 2 5 = [] \<and>
   slow_path (swept loaded_abc 1) ''a'' 2 =
     [\<lparr>s_term = ''abc'', s_distance = 2, s_frequency = 1, s_probability = Finite 1,
       s_iwf = Finite 0\<rparr>] \<and>
   length (lookup_query ''ab'') \<le> 4 \<and>
   exact_lookup (exact_table (swept loaded_abc 1)) (xxh3 (lookup_query ''ab'')) = None \<and>
   symspell_lookup (swept loaded_abc 1) ''ab'' 2 5 =
     [\<lparr>s_term = ''abc'', s_distance = 1, s_frequency = 1, s_probability = Finite 1,
       s_iwf = Finite 0\<rparr>]"
proof -
  have p: "(0::int) < 5" by simp
  have a: "length (lookup_query ''a'') \<le> 4" "length (lookup_query ''ab'') \<le> 4"
    by (simp_all add: query_a_ab)
  have m: "exact_lookup (exact_table (swept loaded_abc 1)) (xxh3 (lookup_query ''a'')) = None"
    "exact_lookup (exact_table (swept loaded_abc 1)) (xxh3 (lookup_query ''ab'')) = None"
    by (simp_all add: query_a_ab lookup_abc)
  from short_query_distance_one [OF p a(1) m(1), of 2]
  have 1: "effective_distance (swept loaded_abc 1) (lookup_query ''a'') 2 = 1"
    and 2: "symspell_lookup (swept loaded_abc 1) ''a'' 2 5 = slow_path (swept loaded_abc 1) ''a'' 1"
    by (simp_all add: query_a_ab)
  from short_query_distance_one [OF p a(2) m(2), of 2]
  have 3: "symspell_lookup (swept loaded_abc 1) ''ab'' 2 5 = slow_path (swept loaded_abc 1) ''ab'' 1"
    by (simp add: query_a_ab)
  from 2 have 4: "symspell_lookup (swept loaded_abc 1) ''a'' 2 5 = []"
    by (simp add: slow_abc_a_1)
  show ?thesis using load_abc p a m 1 2 4 slow_abc_a_2 3 [unfolded slow_abc_ab_1] by blast
qed

section \<open>What an insertion into the exact-match table does\<close>








section \<open>What an insertion into the delete index does\<close>



section \<open>What a load leaves in both tables\<close>













section \<open>A word that comes again keeps its greatest frequency\<close>






section \<open>Comment lines\<close>

text \<open>
  C8 says that blank lines and comment lines are skipped. The loop has no test for
  \<open>#\<close>: a comment line with enough fields is admitted like any other line. Loading
  the single line \<open># Core technical terms\<close> stores the word \<open>#\<close> with frequency 1 in the
  exact-match table and in the delete index, and the word count becomes 1.
\<close>

theorem comment_line_is_loaded:
  "symspell_load_dictionary (one_file ''d.txt'' ''# Core technical terms\<newline>'')
     (Some (created 2 7)) (Some ''d.txt'') 0 1 = Inr (True, Some (swept loaded_comment 1)) \<and>
   fst (symspell_get_stats (swept loaded_comment 1)) = 1 \<and>
   exact_lookup (exact_table (swept loaded_comment 1)) (xxh3 ''#'') = Some 331880 \<and>
   frequencies (exact_table (swept loaded_comment 1)) 331880 = 1 \<and>
   map_option words (table (swept loaded_comment 1) 2959123) = Some [''#'']"
proof -
  let ?d = "swept loaded_comment 1"
  have s: "fst (symspell_get_stats ?d) = 1"
    by (simp add: symspell_get_stats_def swept_def loaded_comment_def)
  have q: "frequencies (exact_table ?d) 331880 = 1"
    by (simp add: swept_def calculate_probabilities_def loaded_comment_def)
  have t: "map_option words (table ?d 2959123) = Some [''#'']"
    by (simp add: swept_def loaded_comment_def)
  show ?thesis using load_comment s lookup_comment q t by blast
qed

section \<open>The word count\<close>

text \<open>
  C9, as stated: the word count \<^verbatim>\<open>symspell_get_stats\<close> reports is the number of
  admitted lines of the input. The loop reads the file with \<^verbatim>\<open>fgets\<close> into a buffer of
  512 bytes, so a longer line comes in pieces, and each piece is taken for a line. The
  file here is one line, \<open>a 1\<close>, 508 spaces and \<open>b 2\<close>: it comes in two pieces, both are
  admitted, and the count is 2.
\<close>

theorem one_line_counts_twice:
  "wide_line = wide_text @ [CHR 0x0A] \<and> CHR 0x0A \<notin> set wide_text \<and>
   symspell_load_dictionary (one_file ''d.txt'' wide_line) (Some (created 2 7)) (Some ''d.txt'') 0 1 =
     Inr (True, Some (swept loaded_a1_b2 1)) \<and>
   fst (symspell_get_stats (created 2 7)) = 0 \<and>
   fst (symspell_get_stats (swept loaded_a1_b2 1)) = 2"
proof -
  have "wide_line = wide_text @ [CHR 0x0A]" by (simp add: wide_line_def)
  moreover have "CHR 0x0A \<notin> set wide_text" by (simp add: wide_text_def)
  moreover have "fst (symspell_get_stats (created 2 7)) = 0"
    by (simp add: symspell_get_stats_def created_def symspell_create_def every_resource_def
        SYMSPELL_MAX_EDIT_DISTANCE_def)
  moreover have "fst (symspell_get_stats (swept loaded_a1_b2 1)) = 2"
    by (simp add: symspell_get_stats_def swept_def loaded_a1_b2_def)
  ultimately show ?thesis using load_wide by blast
qed

text \<open>
  C9, amended: the word count grows by one for every admitted buffer \<^verbatim>\<open>fgets\<close> returns
  during a load, whether or not the word of the buffer is new: after a load it is the
  count before plus the number of admitted buffers. A buffer is a line of the file,
  or a piece of at most 511 bytes of a longer line.
\<close>

theorem word_count_counts_admitted_buffers:
  assumes "fs path = Some content"
    and "symspell_load_dictionary fs (Some dict) (Some path) ti ci = Inr (ok, Some dict')"
  shows "fst (symspell_get_stats dict') =
         fst (symspell_get_stats dict) + of_nat (length (filter (admitted ti ci) (file_chunks content)))"
proof -
  from assms obtain d1 m where
    l: "load_lines ti ci (dict, 0) (file_chunks content) = Inr (d1, m)"
    and d': "dict' = d1\<lparr>exact_table := calculate_probabilities (exact_table d1) m\<rparr>"
    by (auto simp: symspell_load_dictionary_def split: sum.splits)
  from load_lines_word_count [OF l] d' show ?thesis
    by (simp add: symspell_get_stats_def)
qed

lemma admitted_a1_a2:
  "filter (admitted 0 1) (file_chunks ''a 1\<newline>a 2\<newline>'') = [''a 1\<newline>'', ''a 2\<newline>'']"
  by (simp add: chunks_a1_a2 admitted_def parse_a1 parse_a2)

theorem word_count_counts_admitted_buffers_witness:
  "one_file ''d.txt'' ''a 1\<newline>a 2\<newline>'' ''d.txt'' = Some ''a 1\<newline>a 2\<newline>'' \<and>
   symspell_load_dictionary (one_file ''d.txt'' ''a 1\<newline>a 2\<newline>'') (Some (created 2 7))
     (Some ''d.txt'') 0 1 = Inr (True, Some (swept loaded_a1_a2 1)) \<and>
   fst (symspell_get_stats (swept loaded_a1_a2 1)) = 2 \<and>
   map (line_word 0) (filter (admitted 0 1) (file_chunks ''a 1\<newline>a 2\<newline>'')) = [''a'', ''a'']"
proof -
  have f: "one_file ''d.txt'' ''a 1\<newline>a 2\<newline>'' ''d.txt'' = Some ''a 1\<newline>a 2\<newline>''"
    by (simp add: one_file_def)
  have z: "fst (symspell_get_stats (created 2 7)) = 0"
    by (simp add: symspell_get_stats_def created_def symspell_create_def every_resource_def
        SYMSPELL_MAX_EDIT_DISTANCE_def)
  from word_count_counts_admitted_buffers [OF f load_a1_a2] z
  have "fst (symspell_get_stats (swept loaded_a1_a2 1)) = 2"
    by (simp add: admitted_a1_a2 del: One_nat_def)
  moreover have "map (line_word 0) (filter (admitted 0 1) (file_chunks ''a 1\<newline>a 2\<newline>'')) = [''a'', ''a'']"
    by (simp add: admitted_a1_a2 line_word_def parse_a1 parse_a2 del: One_nat_def)
  ultimately show ?thesis using f load_a1_a2 by simp
qed

section \<open>The IWF of the most frequent word and of an absent word\<close>

text \<open>
  What the code does: \<^verbatim>\<open>symspell_get_iwf\<close> returns 0.0 for a word the exact-match table
  does not hold, and after a load it returns 0.0 for a word it holds whose frequency
  is the frequency \<^verbatim>\<open>max_freq\<close> the load divides by, which is the frequency of the first
  admitted line.
\<close>

lemma iwf_zero_for_absent_and_for_first_frequency:
  assumes "fs path = Some content"
    and "load_lines ti ci (dict, 0) (file_chunks content) = Inr (dict1, max_freq)"
    and "symspell_load_dictionary fs (Some dict) (Some path) ti ci = Inr (ok, Some dict')"
  shows "(exact_lookup (exact_table dict') (xxh3 v) = None \<longrightarrow> symspell_get_iwf dict' v = Finite 0) \<and>
         (exact_lookup (exact_table dict') (xxh3 w) = Some pos \<and>
          frequencies (exact_table dict') pos = max_freq \<and> max_freq \<noteq> 0 \<longrightarrow>
            symspell_get_iwf dict' w = Finite 0)"
proof -
  from assms have d': "dict' = dict1\<lparr>exact_table := calculate_probabilities (exact_table dict1) max_freq\<rparr>"
    by (simp add: symspell_load_dictionary_def)
  have absent: "symspell_get_iwf dict' v = Finite 0"
    if "exact_lookup (exact_table dict') (xxh3 v) = None"
    using that by (simp add: symspell_get_iwf_def)
  have present: "symspell_get_iwf dict' w = Finite 0"
    if f: "exact_lookup (exact_table dict') (xxh3 w) = Some pos"
      and q: "frequencies (exact_table dict') pos = max_freq" and nz: "max_freq \<noteq> 0"
  proof -
    from f d' have f1: "exact_lookup (exact_table dict1) (xxh3 w) = Some pos"
      by (simp add: exact_lookup_sweep)
    from sweep_at_found [OF f1, of max_freq] q d'
    have "iwf (exact_table dict') pos = calculate_iwf (float_div max_freq max_freq)"
      by simp
    with nz have "iwf (exact_table dict') pos = Finite 0" by (simp add: float_div_self)
    with f show ?thesis by (simp add: symspell_get_iwf_def)
  qed
  show ?thesis using absent present by blast
qed

lemma ingested_a1_b5:
  "ingested 0 1 (file_chunks ''a 1\<newline>b 5\<newline>'') = [(''a'', 1), (''b'', 5)]"
  by (simp add: ingested_def chunks_a1_b5 admitted_def line_word_def line_freq_def
      parse_a1 parse_b5 del: One_nat_def)

text \<open>
  C10: \<^verbatim>\<open>symspell_get_iwf\<close> returns 0.0 for an absent word and for the most frequent
  word. In the file with the lines \<open>a 1\<close> and \<open>b 5\<close> the most frequent word is \<open>b\<close>. The
  load divides by the frequency of the first line, 1, so the probability of \<open>b\<close> is 5
  and its IWF is \<open>ln 5\<close>, not 0; it is \<open>a\<close> that gets 0, as the absent word \<open>c\<close> does.
\<close>

theorem most_frequent_word_iwf_not_zero:
  "symspell_load_dictionary (one_file ''d.txt'' ''a 1\<newline>b 5\<newline>'') (Some (created 2 7))
     (Some ''d.txt'') 0 1 = Inr (True, Some (swept loaded_a1_b5 1)) \<and>
   ingested 0 1 (file_chunks ''a 1\<newline>b 5\<newline>'') = [(''a'', 1), (''b'', 5)] \<and>
   symspell_get_iwf (swept loaded_a1_b5 1) ''b'' = Finite (ln 5) \<and>
   Finite (ln 5) \<noteq> Finite 0 \<and>
   symspell_get_iwf (swept loaded_a1_b5 1) ''a'' = Finite 0 \<and>
   symspell_get_iwf (swept loaded_a1_b5 1) ''c'' = Finite 0"
proof -
  have b: "symspell_get_iwf (swept loaded_a1_b5 1) ''b'' = Finite (ln 5)"
    using lookup_a1_b5(2)
    by (simp add: symspell_get_iwf_def)
      (simp add: swept_def calculate_probabilities_def loaded_a1_b5_def float_eval
        calculate_iwf_def)
  have a: "symspell_get_iwf (swept loaded_a1_b5 1) ''a'' = Finite 0"
    using lookup_a1_b5(1)
    by (simp add: symspell_get_iwf_def)
      (simp add: swept_def calculate_probabilities_def loaded_a1_b5_def float_eval
        calculate_iwf_def)
  have c: "symspell_get_iwf (swept loaded_a1_b5 1) ''c'' = Finite 0"
    using lookup_a1_b5(3) by (simp add: symspell_get_iwf_def)
  have n: "Finite (ln 5) \<noteq> Finite 0" by simp
  show ?thesis using load_a1_b5 ingested_a1_b5 a b c n by blast
qed

end
